theory Spec2Isabelle
  imports Main "HOL-Library.Word" "HOL-Library.AList"
begin

section \<open>The SQL statement compiler of pkg/sql/stmt.go\<close>

text \<open>
  The development embeds the statement tree of \<^verbatim>\<open>pkg/sql/stmt.go\<close> and the methods
  \<^verbatim>\<open>CompileUsing\<close>, \<^verbatim>\<open>Validate\<close>, \<^verbatim>\<open>Bytes\<close>, \<^verbatim>\<open>referencedTable\<close>, \<^verbatim>\<open>Resolve\<close> and
  \<^verbatim>\<open>jointColumnTo\<close>. Conventions:
  \<^item> a byte slice is a list of 8-bit words; \<^verbatim>\<open>nil\<close> and the empty slice are both \<open>[]\<close>;
  \<^item> a Go map of the catalog is an association list read with \<open>map_of\<close>; where the code
    ranges over a map, the list order stands for the iteration order Go happens to
    choose, and the theorems hold for every order; the local map of \<^verbatim>\<open>Validate\<close> is a
    partial function;
  \<^item> a pointer that the code itself compares with \<^verbatim>\<open>nil\<close> is an \<open>option\<close>; a pointer that
    the parser always sets is the value it points to;
  \<^item> an error return is \<open>Inl\<close> of the \<open>error\<close> datatype; a run-time panic (nil
    dereference, index out of range) is the value \<open>Inl Panic\<close>;
  \<^item> methods that mutate the engine or the catalog return the new engine with the result.
\<close>

subsection \<open>Bytes, errors, key-value entries\<close>

type_synonym bytes = "8 word list"

text \<open>
  The error values that \<^verbatim>\<open>stmt.go\<close> returns or passes on, one constructor for each.
  \<open>ErrNotYetSupported\<close> is \<^verbatim>\<open>errors.New("not yet supported")\<close>, \<open>ErrEncoding\<close> a refusal of
  the value codec, \<open>Panic\<close> a run-time panic.
\<close>

datatype error =
    ErrIllegalArguments
  | ErrNoDatabaseSelected
  | ErrDatabaseDoesNotExist
  | ErrDatabaseAlreadyExists
  | ErrTableDoesNotExist
  | ErrTableAlreadyExists
  | ErrColumnDoesNotExist
  | ErrDuplicatedColumn
  | ErrInvalidColumn
  | ErrColumnNotIndexed
  | ErrIndexAlreadyExists
  | ErrPKCanNotBeNull
  | ErrInvalidPK
  | ErrInvalidNumberOfValues
  | ErrJointColumnNotFound
  | ErrInvalidJointColumn
  | ErrLimitedOrderBy
  | ErrNotYetSupported
  | ErrEncoding
  | Panic

text \<open>\<^verbatim>\<open>store.KV\<close>: a key and a value.\<close>

record KV =
  Key :: bytes
  Value :: bytes

text \<open>\<^verbatim>\<open>[]byte(s)\<close> for a Go string \<open>s\<close>.\<close>

definition stringBytes :: "string \<Rightarrow> bytes" where
  "stringBytes s = map of_char s"

text \<open>\<^verbatim>\<open>binary.BigEndian.PutUint32\<close> on a fresh 4-byte buffer.\<close>

definition putUint32 :: "32 word \<Rightarrow> bytes" where
  "putUint32 n = map (\<lambda>i. ucast (drop_bit (8 * i) n)) [3, 2, 1, 0]"

definition catalogDatabasePrefix :: string where
  "catalogDatabasePrefix = ''CATALOG.DATABASE.''"

definition catalogTablePrefix :: string where
  "catalogTablePrefix = ''CATALOG.TABLE.''"

definition catalogColumnPrefix :: string where
  "catalogColumnPrefix = ''CATALOG.COLUMN.''"

definition catalogIndexPrefix :: string where
  "catalogIndexPrefix = ''CATALOG.INDEX.''"

definition rowPrefix :: string where
  "rowPrefix = ''ROW.''"

type_synonym SQLValueType = string

definition IntegerType :: SQLValueType where
  "IntegerType = ''INTEGER''"

definition BooleanType :: SQLValueType where
  "BooleanType = ''BOOLEAN''"

definition StringType :: SQLValueType where
  "StringType = ''STRING''"

definition BLOBType :: SQLValueType where
  "BLOBType = ''BLOB''"

definition TimestampType :: SQLValueType where
  "TimestampType = ''TIMESTAMP''"

datatype AggregateFn = AggCOUNT | AggSUM | AggMAX | AggMIN | AggAVG

datatype CmpOperator = EQ | NE | LT | LE | GT | GE

datatype LogicOperator = AND | OR

datatype JoinType = InnerJoin | LeftJoin | RightJoin

datatype Comparison = EqualTo | LowerThan | LowerOrEqualTo | GreaterThan | GreaterOrEqualTo

subsection \<open>The catalog\<close>

text \<open>
  Modelled from the spec: the types \<^verbatim>\<open>Column\<close>, \<^verbatim>\<open>Table\<close>, \<^verbatim>\<open>Database\<close>, \<^verbatim>\<open>Catalog\<close> and
  \<^verbatim>\<open>Engine\<close> are declared outside \<^verbatim>\<open>stmt.go\<close>. Section 3 gives the entities and their
  attributes; the records below hold the fields that \<^verbatim>\<open>stmt.go\<close> reads and writes. The
  fields \<^verbatim>\<open>id\<close> and \<^verbatim>\<open>name\<close> carry the prefix of their struct (\<open>col_id\<close>, \<open>tbl_id\<close>,
  \<open>tbl_name\<close>, \<open>db_id\<close>, \<open>db_name\<close>). The back pointers \<^verbatim>\<open>col.table\<close> and \<^verbatim>\<open>table.db\<close> are
  flattened into the fields they are read for: \<open>col_tableName\<close> is \<^verbatim>\<open>col.table.name\<close>,
  \<open>col_dbName\<close> is \<^verbatim>\<open>col.table.db.name\<close>, \<open>tbl_dbID\<close> is \<^verbatim>\<open>table.db.id\<close> and
  \<open>tbl_dbName\<close> is \<^verbatim>\<open>table.db.name\<close>. The map \<^verbatim>\<open>indexes\<close> of type
  \<^verbatim>\<open>map[uint64]struct{}\<close> is the list of its keys.
\<close>

record Column =
  col_dbName :: string
  col_tableName :: string
  col_id :: "64 word"
  colName :: string
  colType :: SQLValueType

record Table =
  tbl_dbID :: "64 word"
  tbl_dbName :: string
  tbl_id :: "64 word"
  tbl_name :: string
  colsByID :: "(64 word \<times> Column) list"
  colsByName :: "(string \<times> Column) list"
  pk :: Column
  indexes :: "64 word list"

record Database =
  db_id :: "64 word"
  db_name :: string
  tablesByName :: "(string \<times> Table) list"

record Catalog =
  dbsByName :: "(string \<times> Database) list"

record Engine =
  catalog :: Catalog
  implicitDatabase :: string
  prefix :: bytes

text \<open>
  Modelled from the spec: \<^verbatim>\<open>encodeID\<close> is defined outside \<^verbatim>\<open>stmt.go\<close>. Section 4.1: all ids
  are encoded as 8-byte big-endian unsigned integers.
\<close>

definition encodeID :: "64 word \<Rightarrow> bytes" where
  "encodeID n = map (\<lambda>i. ucast (drop_bit (8 * i) n)) [7, 6, 5, 4, 3, 2, 1, 0]"

text \<open>
  Modelled from the spec: \<^verbatim>\<open>Engine.mapKey\<close> is defined outside \<^verbatim>\<open>stmt.go\<close>. Section 4.1: a
  key is one of the five prefixes followed by the encoded components in order, and the
  implementation may prepend a fixed per-engine prefix to all keys uniformly.
\<close>

definition mapKey :: "Engine \<Rightarrow> string \<Rightarrow> bytes list \<Rightarrow> bytes" where
  "mapKey e mappingPrefix encValues = prefix e @ stringBytes mappingPrefix @ concat encValues"

text \<open>
  Modelled from the spec: \<^verbatim>\<open>Catalog.ExistDatabase\<close> is defined outside \<^verbatim>\<open>stmt.go\<close>.
  Section 4.2: \<^verbatim>\<open>exists(name)\<close> tells whether a database of that name is in the catalog.
\<close>

definition ExistDatabase :: "Catalog \<Rightarrow> string \<Rightarrow> bool" where
  "ExistDatabase c db = (map_of (dbsByName c) db \<noteq> None)"

text \<open>
  Modelled from the spec: \<^verbatim>\<open>Catalog.newDatabase\<close> is defined outside \<^verbatim>\<open>stmt.go\<close>.
  Section 4.2: it fails with DatabaseAlreadyExists; section 3: ids are assigned densely
  from 1 in their scope and names are unique.
\<close>

definition newDatabase :: "Catalog \<Rightarrow> string \<Rightarrow> error + (Database \<times> Catalog)" where
  "newDatabase c name =
     (if ExistDatabase c name then Inl ErrDatabaseAlreadyExists
      else
        let db = \<lparr>db_id = of_nat (length (dbsByName c) + 1), db_name = name, tablesByName = []\<rparr>
        in Inr (db, c\<lparr>dbsByName := dbsByName c @ [(name, db)]\<rparr>))"

subsection \<open>The statement tree\<close>

text \<open>
  Field names that several structs share carry a prefix: \<open>spec_\<close> in \<^verbatim>\<open>ColSpec\<close>, \<open>tr_\<close> in
  \<^verbatim>\<open>TableRef\<close>, \<open>sel_\<close> in \<^verbatim>\<open>ColSelector\<close>.
\<close>

record ColSpec =
  spec_colName :: string
  spec_colType :: SQLValueType

text \<open>The implementations of the interface \<^verbatim>\<open>Value\<close>.\<close>

datatype Value =
    Number "64 word"
  | String string
  | Bool bool
  | Blob bytes
  | SysFn string
  | Param string

record RowSpec =
  Values :: "Value list"

record TableRef =
  tr_db :: string
  tr_table :: string
  tr_as :: string

record ColSelector =
  sel_db :: string
  sel_table :: string
  sel_col :: string
  sel_as :: string

record OrdCol =
  sel :: "ColSelector option"
  cmp :: Comparison
  initKeyVal :: bytes
  useInitKeyVal :: bool

text \<open>
  The interface \<^verbatim>\<open>Selector\<close> has no methods; the three selector structs of the file
  are its variants.
\<close>

datatype Selector =
    ColSel ColSelector
  | AggSel AggregateFn string
  | AggColSel AggregateFn string string string string

text \<open>
  The interface \<^verbatim>\<open>BoolExp\<close> asks for \<^verbatim>\<open>jointColumnTo\<close> only, so every \<^verbatim>\<open>Value\<close> is a
  \<^verbatim>\<open>BoolExp\<close> as well (\<open>ValueExp\<close>), next to \<^verbatim>\<open>*ColSelector\<close> and the five expression
  structs. \<^verbatim>\<open>SelectStmt\<close> and \<^verbatim>\<open>TableRef\<close> implement \<^verbatim>\<open>DataSource\<close>. The fields of
  \<^verbatim>\<open>SelectStmt\<close> keep their order: distinct, selectors, ds, joins, where, groupBy,
  having, limit, orderBy, as (\<open>distinct_sel\<close>, \<open>where_exp\<close> and \<open>as_name\<close> for the first, the
  fifth and the last).
\<close>

datatype BoolExp =
    ValueExp Value
  | ColSelectorExp ColSelector
  | NotBoolExp BoolExp
  | LikeBoolExp ColSelector string
  | CmpBoolExp CmpOperator BoolExp BoolExp
  | BinBoolExp LogicOperator BoolExp BoolExp
  | ExistsBoolExp SelectStmt
and SelectStmt =
    Select (distinct_sel: bool) (selectors: "Selector list") (ds: DataSource)
      (joins: "JoinSpec list option") (where_exp: "BoolExp option")
      (groupBy: "ColSelector list option") (having: "BoolExp option")
      (limit: "64 word") (orderBy: "OrdCol list") (as_name: string)
and DataSource =
    TableRefDS TableRef
  | SelectStmtDS SelectStmt
and JoinSpec =
    JoinSpec (joinType: JoinType) (join_ds: DataSource) (cond: BoolExp)

datatype SQLStmt =
    TxStmt "SQLStmt list"
  | CreateDatabaseStmt string
  | UseDatabaseStmt string
  | UseSnapshotStmt string string
  | CreateTableStmt string "ColSpec list" string
  | CreateIndexStmt string string
  | AddColumnStmt string ColSpec
  | UpsertIntoStmt TableRef "string list" "RowSpec list"
  | SelectSQLStmt SelectStmt

text \<open>The outcome of \<^verbatim>\<open>CompileUsing\<close>: an error, or the catalog entries and the data entries.\<close>

type_synonym compiled = "error + (KV list \<times> KV list)"

subsection \<open>Creating tables in the catalog\<close>

text \<open>
  Modelled from the spec: \<^verbatim>\<open>Database.newTable\<close> is defined outside \<^verbatim>\<open>stmt.go\<close>.
  Section 4.2: \<^verbatim>\<open>new_table(name, cols, pk)\<close> fails with TableAlreadyExists,
  DuplicatedColumn, or InvalidPK when \<open>pk\<close> is not among the columns; section 3: table
  ids are dense within the database and column ids dense within the table, both from 1,
  and a new table has no secondary index. The new table is registered in the database.
  \<open>newColumn\<close> makes the column of the \<open>i\<close>-th declaration, with id \<open>i + 1\<close>.
\<close>

definition newColumn :: "Database \<Rightarrow> string \<Rightarrow> nat \<times> ColSpec \<Rightarrow> Column" where
  "newColumn db name ics =
     \<lparr>col_dbName = db_name db, col_tableName = name, col_id = of_nat (fst ics + 1),
      colName = spec_colName (snd ics), colType = spec_colType (snd ics)\<rparr>"

definition newTable :: "Database \<Rightarrow> string \<Rightarrow> ColSpec list \<Rightarrow> string \<Rightarrow> error + (Table \<times> Database)" where
  "newTable db name colsSpec pkName =
     (if map_of (tablesByName db) name \<noteq> None then Inl ErrTableAlreadyExists
      else if \<not> distinct (map spec_colName colsSpec) then Inl ErrDuplicatedColumn
      else
        let cols = map (newColumn db name) (enumerate 0 colsSpec)
        in case find (\<lambda>c. colName c = pkName) cols of
             None \<Rightarrow> Inl ErrInvalidPK
           | Some pkCol \<Rightarrow>
               let table = \<lparr>tbl_dbID = db_id db, tbl_dbName = db_name db,
                     tbl_id = of_nat (length (tablesByName db) + 1), tbl_name = name,
                     colsByID = map (\<lambda>c. (col_id c, c)) cols,
                     colsByName = map (\<lambda>c. (colName c, c)) cols,
                     pk = pkCol, indexes = []\<rparr>
               in Inr (table, db\<lparr>tablesByName := tablesByName db @ [(name, table)]\<rparr>))"

subsection \<open>Resolving a table reference\<close>

text \<open>
  \<^verbatim>\<open>TableRef.referencedTable\<close>. The local \<^verbatim>\<open>var db string\<close> starts empty (\<open>db0\<close>); the first
  \<^verbatim>\<open>if\<close> tests that local, the second one the value the first left behind. Indexing
  \<^verbatim>\<open>dbsByName\<close> with a name that is not there gives a nil database, whose field access
  panics.
\<close>

definition referencedTable :: "Engine option \<Rightarrow> TableRef \<Rightarrow> error + Table" where
  "referencedTable eo stmt =
     (case eo of
        None \<Rightarrow> Inl ErrIllegalArguments
      | Some e \<Rightarrow>
          let db0 = '''' in
          if db0 \<noteq> '''' \<and> \<not> ExistDatabase (catalog e) (tr_db stmt) then Inl ErrDatabaseDoesNotExist
          else
            (let db1 = (if db0 \<noteq> '''' then tr_db stmt else db0) in
             if db1 = '''' \<and> implicitDatabase e = '''' then Inl ErrNoDatabaseSelected
             else
               (let db2 = (if db1 = '''' then implicitDatabase e else db1) in
                (case map_of (dbsByName (catalog e)) db2 of
                   None \<Rightarrow> Inl Panic
                 | Some d \<Rightarrow>
                     (case map_of (tablesByName d) (tr_table stmt) of
                        None \<Rightarrow> Inl ErrTableDoesNotExist
                      | Some table \<Rightarrow> Inr table)))))"

subsection \<open>DDL statements\<close>

text \<open>Writing a database back under its name: the catalog holds pointers, the model values.\<close>

definition storeDatabase :: "Engine \<Rightarrow> string \<Rightarrow> Database \<Rightarrow> Engine" where
  "storeDatabase e name db =
     e\<lparr>catalog := (catalog e)\<lparr>dbsByName := AList.update name db (dbsByName (catalog e))\<rparr>\<rparr>"

definition CreateDatabaseStmt_CompileUsing :: "Engine option \<Rightarrow> string \<Rightarrow> compiled \<times> Engine option" where
  "CreateDatabaseStmt_CompileUsing eo db =
     (case eo of
        None \<Rightarrow> (Inl Panic, eo)
      | Some e \<Rightarrow>
          (case newDatabase (catalog e) db of
             Inl err \<Rightarrow> (Inl err, eo)
           | Inr (d, c) \<Rightarrow>
               let kv = \<lparr>Key = mapKey e catalogDatabasePrefix [encodeID (db_id d)],
                         Value = stringBytes db\<rparr>
               in (Inr ([kv], []), Some (e\<lparr>catalog := c\<rparr>))))"

definition UseDatabaseStmt_CompileUsing :: "Engine option \<Rightarrow> string \<Rightarrow> compiled \<times> Engine option" where
  "UseDatabaseStmt_CompileUsing eo db =
     (case eo of
        None \<Rightarrow> (Inl Panic, eo)
      | Some e \<Rightarrow>
          if \<not> ExistDatabase (catalog e) db then (Inl ErrDatabaseDoesNotExist, eo)
          else (Inr ([], []), Some (e\<lparr>implicitDatabase := db\<rparr>)))"

definition CreateTableStmt_CompileUsing ::
    "Engine option \<Rightarrow> string \<Rightarrow> ColSpec list \<Rightarrow> string \<Rightarrow> compiled \<times> Engine option" where
  "CreateTableStmt_CompileUsing eo tableName colsSpec pkName =
     (case eo of
        None \<Rightarrow> (Inl Panic, eo)
      | Some e \<Rightarrow>
          if implicitDatabase e = '''' then (Inl ErrNoDatabaseSelected, eo)
          else
            (case map_of (dbsByName (catalog e)) (implicitDatabase e) of
               None \<Rightarrow> (Inl Panic, eo)
             | Some db \<Rightarrow>
                (case newTable db tableName colsSpec pkName of
                   Inl err \<Rightarrow> (Inl err, eo)
                 | Inr (table, db') \<Rightarrow>
                     let ces = map (\<lambda>(colID, col).
                                 \<lparr>Key = mapKey e catalogColumnPrefix
                                    [encodeID (db_id db), encodeID (tbl_id table), encodeID colID,
                                     stringBytes (colType col)],
                                  Value = []\<rparr>) (colsByID table);
                         te = \<lparr>Key = mapKey e catalogTablePrefix
                                 [encodeID (db_id db), encodeID (tbl_id table),
                                  encodeID (col_id (pk table))],
                               Value = stringBytes (tbl_name table)\<rparr>
                     in (Inr (ces @ [te], []),
                         Some (storeDatabase e (implicitDatabase e) db')))))"

definition CreateIndexStmt_CompileUsing :: "Engine option \<Rightarrow> string \<Rightarrow> string \<Rightarrow> compiled \<times> Engine option" where
  "CreateIndexStmt_CompileUsing eo tableName colN =
     (case eo of
        None \<Rightarrow> (Inl Panic, eo)
      | Some e \<Rightarrow>
          if implicitDatabase e = '''' then (Inl ErrNoDatabaseSelected, eo)
          else
            (case map_of (dbsByName (catalog e)) (implicitDatabase e) of
               None \<Rightarrow> (Inl Panic, eo)
             | Some db \<Rightarrow>
                (case map_of (tablesByName db) tableName of
                   None \<Rightarrow> (Inl ErrTableDoesNotExist, eo)
                 | Some table \<Rightarrow>
                     if colName (pk table) = colN then (Inl ErrIndexAlreadyExists, eo)
                     else
                       (case map_of (colsByName table) colN of
                          None \<Rightarrow> (Inl ErrColumnDoesNotExist, eo)
                        | Some col \<Rightarrow>
                           if col_id col \<in> set (indexes table) then (Inl ErrIndexAlreadyExists, eo)
                           else
                             let table' = table\<lparr>indexes := indexes table @ [col_id col]\<rparr>;
                                 db' = db\<lparr>tablesByName :=
                                          AList.update tableName table' (tablesByName db)\<rparr>;
                                 te = \<lparr>Key = mapKey e catalogIndexPrefix
                                         [encodeID (tbl_dbID table), encodeID (tbl_id table),
                                          encodeID (col_id col)],
                                       Value = stringBytes (tbl_name table)\<rparr>
                             in (Inr ([te], []),
                                 Some (storeDatabase e (implicitDatabase e) db'))))))"

subsection \<open>UPSERT\<close>

text \<open>
  \<^verbatim>\<open>encodeValue\<close> is defined outside \<^verbatim>\<open>stmt.go\<close>; the functions that call it take it as the
  parameter \<open>enc\<close>, so every theorem below holds for whatever codec the package uses.
\<close>

type_synonym encoder = "Value \<Rightarrow> SQLValueType \<Rightarrow> bool \<Rightarrow> error + bytes"

text \<open>
  Modelled from the spec: the constant \<^verbatim>\<open>asKey\<close> is declared outside \<^verbatim>\<open>stmt.go\<close>. Section 9
  takes it to be the boolean literal \<^verbatim>\<open>true\<close>.
\<close>

definition asKey :: bool where
  "asKey = True"

text \<open>Reading a Go map of integers: a missing key reads as the zero value.\<close>

definition lookupInt :: "('k \<rightharpoonup> nat) \<Rightarrow> 'k \<Rightarrow> nat" where
  "lookupInt m k = (case m k of None \<Rightarrow> 0 | Some i \<Rightarrow> i)"

text \<open>
  \<^verbatim>\<open>UpsertIntoStmt.Validate\<close>: the loop over \<^verbatim>\<open>stmt.cols\<close> with its two locals
  \<^verbatim>\<open>pkIncluded\<close> and \<^verbatim>\<open>selByColID\<close>, then the test of \<^verbatim>\<open>pkIncluded\<close>.
\<close>

fun Validate_loop ::
    "Table \<Rightarrow> (nat \<times> string) list \<Rightarrow> bool \<Rightarrow> (64 word \<rightharpoonup> nat) \<Rightarrow> error + (bool \<times> (64 word \<rightharpoonup> nat))" where
  "Validate_loop table [] pkIncluded selByColID = Inr (pkIncluded, selByColID)"
| "Validate_loop table ((i, c) # rest) pkIncluded selByColID =
     (case map_of (colsByName table) c of
        None \<Rightarrow> Inl ErrInvalidColumn
      | Some col \<Rightarrow>
          let pkIncluded' = (if colName (pk table) = c then True else pkIncluded) in
          (case selByColID (col_id col) of
             Some _ \<Rightarrow> Inl ErrDuplicatedColumn
           | None \<Rightarrow> Validate_loop table rest pkIncluded' (selByColID(col_id col \<mapsto> i))))"

definition Validate :: "string list \<Rightarrow> Table \<Rightarrow> error + (64 word \<rightharpoonup> nat)" where
  "Validate cols table =
     (case Validate_loop table (enumerate 0 cols) False Map.empty of
        Inl err \<Rightarrow> Inl err
      | Inr (pkIncluded, selByColID) \<Rightarrow>
          if \<not> pkIncluded then Inl ErrPKCanNotBeNull else Inr selByColID)"

text \<open>
  \<^verbatim>\<open>RowSpec.Bytes\<close>: the number of listed columns, then for every value the length of the
  column name, the name and the encoded value. \<^verbatim>\<open>cols[i]\<close> panics out of range, and so
  does \<^verbatim>\<open>col.colName\<close> when the name is not in \<^verbatim>\<open>colsByName\<close>. Writing to a
  \<^verbatim>\<open>bytes.Buffer\<close> returns no error.
\<close>

fun Bytes_loop ::
    "encoder \<Rightarrow> Table \<Rightarrow> string list \<Rightarrow> (nat \<times> Value) list \<Rightarrow> bytes \<Rightarrow> error + bytes" where
  "Bytes_loop enc t cols [] valbuf = Inr valbuf"
| "Bytes_loop enc t cols ((i, val) # rest) valbuf =
     (if length cols \<le> i then Inl Panic
      else
        (case map_of (colsByName t) (cols ! i) of
           None \<Rightarrow> Inl Panic
         | Some col \<Rightarrow>
             let b = putUint32 (of_nat (length (colName col))) @ stringBytes (colName col) in
             (case enc val (colType col) (\<not> asKey) of
                Inl err \<Rightarrow> Inl err
              | Inr valb \<Rightarrow> Bytes_loop enc t cols rest (valbuf @ b @ valb))))"

definition Bytes :: "encoder \<Rightarrow> RowSpec \<Rightarrow> Table \<Rightarrow> string list \<Rightarrow> error + bytes" where
  "Bytes enc r t cols =
     Bytes_loop enc t cols (enumerate 0 (Values r)) (putUint32 (of_nat (length cols)))"

text \<open>
  \<^verbatim>\<open>UpsertIntoStmt.CompileUsing\<close>. \<open>index_loop\<close> is the inner loop over \<^verbatim>\<open>table.indexes\<close>,
  \<open>rows_loop\<close> the outer loop over \<^verbatim>\<open>stmt.rows\<close>; both append to \<^verbatim>\<open>des\<close>. \<open>primaryKey\<close> and
  \<open>indexKey\<close> are the two calls of \<^verbatim>\<open>e.mapKey\<close> in the loops. A column id that is missing
  from \<^verbatim>\<open>cs\<close> reads as position 0, one that is missing from \<^verbatim>\<open>colsByID\<close> as a nil column.
\<close>

definition primaryKey :: "Engine \<Rightarrow> Table \<Rightarrow> bytes \<Rightarrow> bytes" where
  "primaryKey e table pkEncVal =
     mapKey e rowPrefix
       [encodeID (tbl_dbID table), encodeID (tbl_id table), encodeID (col_id (pk table)), pkEncVal]"

definition indexKey :: "Engine \<Rightarrow> Table \<Rightarrow> 64 word \<Rightarrow> bytes \<Rightarrow> bytes \<Rightarrow> bytes" where
  "indexKey e table colID encVal pkEncVal =
     mapKey e rowPrefix
       [encodeID (tbl_dbID table), encodeID (tbl_id table), encodeID colID, encVal, pkEncVal]"

fun index_loop ::
    "encoder \<Rightarrow> Engine \<Rightarrow> Table \<Rightarrow> (64 word \<rightharpoonup> nat) \<Rightarrow> RowSpec \<Rightarrow> bytes \<Rightarrow> 64 word list \<Rightarrow> KV list
      \<Rightarrow> error + KV list" where
  "index_loop enc e table cs row pkEncVal [] des = Inr des"
| "index_loop enc e table cs row pkEncVal (colID # rest) des =
     (if length (Values row) \<le> lookupInt cs colID then Inl Panic
      else
        let cVal = Values row ! lookupInt cs colID in
        (case map_of (colsByID table) colID of
           None \<Rightarrow> Inl Panic
         | Some col \<Rightarrow>
             (case enc cVal (colType col) asKey of
                Inl err \<Rightarrow> Inl err
              | Inr encVal \<Rightarrow>
                  let ie = \<lparr>Key = indexKey e table colID encVal pkEncVal, Value = []\<rparr>
                  in index_loop enc e table cs row pkEncVal rest (des @ [ie]))))"

fun rows_loop ::
    "encoder \<Rightarrow> Engine \<Rightarrow> Table \<Rightarrow> string list \<Rightarrow> (64 word \<rightharpoonup> nat) \<Rightarrow> RowSpec list \<Rightarrow> KV list
      \<Rightarrow> error + KV list" where
  "rows_loop enc e table cols cs [] des = Inr des"
| "rows_loop enc e table cols cs (row # rest) des =
     (if length (Values row) \<noteq> length cols then Inl ErrInvalidNumberOfValues
      else if length (Values row) \<le> lookupInt cs (col_id (pk table)) then Inl Panic
      else
        let pkVal = Values row ! lookupInt cs (col_id (pk table)) in
        (case enc pkVal (colType (pk table)) asKey of
           Inl err \<Rightarrow> Inl err
         | Inr pkEncVal \<Rightarrow>
             (case Bytes enc row table cols of
                Inl err \<Rightarrow> Inl err
              | Inr bs \<Rightarrow>
                  let pke = \<lparr>Key = primaryKey e table pkEncVal, Value = bs\<rparr> in
                  (case index_loop enc e table cs row pkEncVal (indexes table) (des @ [pke]) of
                     Inl err \<Rightarrow> Inl err
                   | Inr des' \<Rightarrow> rows_loop enc e table cols cs rest des'))))"

definition UpsertIntoStmt_CompileUsing ::
    "encoder \<Rightarrow> Engine option \<Rightarrow> TableRef \<Rightarrow> string list \<Rightarrow> RowSpec list \<Rightarrow> compiled" where
  "UpsertIntoStmt_CompileUsing enc eo tableRef cols rows =
     (case referencedTable eo tableRef of
        Inl err \<Rightarrow> Inl err
      | Inr table \<Rightarrow>
          (case Validate cols table of
             Inl err \<Rightarrow> Inl err
           | Inr cs \<Rightarrow>
               (case eo of
                  None \<Rightarrow> Inl Panic
                | Some e \<Rightarrow>
                    (case rows_loop enc e table cols cs rows [] of
                       Inl err \<Rightarrow> Inl err
                     | Inr des \<Rightarrow> Inr ([], des)))))"

subsection \<open>SELECT\<close>

text \<open>
  \<^verbatim>\<open>SelectStmt.CompileUsing\<close>. The type assertion \<^verbatim>\<open>stmt.ds.(*TableRef)\<close> is the case split
  on the data source; \<^verbatim>\<open>stmt.orderBy[0].sel.col\<close> panics when \<^verbatim>\<open>sel\<close> is nil. The function
  changes nothing in the engine.
\<close>

definition SelectStmt_CompileUsing :: "Engine option \<Rightarrow> SelectStmt \<Rightarrow> compiled" where
  "SelectStmt_CompileUsing eo stmt =
     (if 1 < length (orderBy stmt) then Inl ErrLimitedOrderBy
      else if 0 < length (orderBy stmt) then
        (case ds stmt of
           SelectStmtDS _ \<Rightarrow> Inl ErrLimitedOrderBy
         | TableRefDS tableRef \<Rightarrow>
             (case referencedTable eo tableRef of
                Inl err \<Rightarrow> Inl err
              | Inr table \<Rightarrow>
                  (case sel (orderBy stmt ! 0) of
                     None \<Rightarrow> Inl Panic
                   | Some s \<Rightarrow>
                       (case map_of (colsByName table) (sel_col s) of
                          None \<Rightarrow> Inl ErrLimitedOrderBy
                        | Some col \<Rightarrow>
                            if col_id (pk table) = col_id col then Inr ([], [])
                            else if col_id col \<notin> set (indexes table) then Inl ErrLimitedOrderBy
                            else Inr ([], [])))))
      else Inr ([], []))"

subsection \<open>Compiling any statement\<close>

text \<open>
  \<^verbatim>\<open>CompileUsing\<close> dispatches on the statement, as the interface \<^verbatim>\<open>SQLStmt\<close> does.
  \<open>TxStmt_loop\<close> is the loop of \<^verbatim>\<open>TxStmt.CompileUsing\<close> with its named results \<^verbatim>\<open>ces\<close> and
  \<^verbatim>\<open>des\<close>: each round compiles one child on the engine the previous child left, returns
  at the first error, appends \<^verbatim>\<open>cs\<close> to \<^verbatim>\<open>ces\<close> and assigns \<^verbatim>\<open>append(ds, ds...)\<close> to the
  round's own \<^verbatim>\<open>ds\<close> (\<open>ds0\<close> before the assignment, \<open>ds1\<close> after it); \<^verbatim>\<open>des\<close> is not
  assigned.
\<close>

fun CompileUsing :: "encoder \<Rightarrow> Engine option \<Rightarrow> SQLStmt \<Rightarrow> compiled \<times> Engine option"
  and TxStmt_loop ::
    "encoder \<Rightarrow> Engine option \<Rightarrow> SQLStmt list \<Rightarrow> KV list \<Rightarrow> KV list \<Rightarrow> compiled \<times> Engine option" where
  "CompileUsing enc eo (TxStmt stmts) = TxStmt_loop enc eo stmts [] []"
| "CompileUsing enc eo (CreateDatabaseStmt db) = CreateDatabaseStmt_CompileUsing eo db"
| "CompileUsing enc eo (UseDatabaseStmt db) = UseDatabaseStmt_CompileUsing eo db"
| "CompileUsing enc eo (UseSnapshotStmt since upTo) = (Inl ErrNotYetSupported, eo)"
| "CompileUsing enc eo (CreateTableStmt table colsSpec pkName) =
     CreateTableStmt_CompileUsing eo table colsSpec pkName"
| "CompileUsing enc eo (CreateIndexStmt table col) = CreateIndexStmt_CompileUsing eo table col"
| "CompileUsing enc eo (AddColumnStmt table colSpec) = (Inl ErrNotYetSupported, eo)"
| "CompileUsing enc eo (UpsertIntoStmt tableRef cols rows) =
     (UpsertIntoStmt_CompileUsing enc eo tableRef cols rows, eo)"
| "CompileUsing enc eo (SelectSQLStmt stmt) = (SelectStmt_CompileUsing eo stmt, eo)"
| "TxStmt_loop enc eo [] ces des = (Inr (ces, des), eo)"
| "TxStmt_loop enc eo (stmt # rest) ces des =
     (case CompileUsing enc eo stmt of
        (Inl err, eo') \<Rightarrow> (Inl err, eo')
      | (Inr (cs, ds0), eo') \<Rightarrow>
          let ces' = ces @ cs;
              ds1 = ds0 @ ds0
          in TxStmt_loop enc eo' rest ces' des)"

subsection \<open>Resolving data sources\<close>

text \<open>
  \<^verbatim>\<open>maxKeyVal\<close>, \<^verbatim>\<open>Engine.newRawRowReader\<close> and \<^verbatim>\<open>Engine.newJointRowReader\<close> are defined
  outside \<^verbatim>\<open>stmt.go\<close>; the resolvers take them as the parameters \<open>maxKeyVal\<close>, \<open>newRaw\<close> and
  \<open>newJoint\<close>, with \<open>'r\<close> the type of row readers and \<open>'s\<close> the type of snapshots.

  \<^verbatim>\<open>TableRef.Resolve\<close>. The local \<^verbatim>\<open>initKeyVal\<close> is nil (\<open>initKeyVal0\<close>) when its length is
  compared with that of \<^verbatim>\<open>maxKeyVal(col.colType)\<close>; the assignment from
  \<^verbatim>\<open>ordCol.initKeyVal\<close> follows the comparison.
\<close>

definition TableRef_Resolve ::
    "(SQLValueType \<Rightarrow> bytes) \<Rightarrow> (Engine \<Rightarrow> 's \<Rightarrow> Table \<Rightarrow> string \<Rightarrow> Comparison \<Rightarrow> bytes \<Rightarrow> error + 'r)
      \<Rightarrow> Engine option \<Rightarrow> 's option \<Rightarrow> OrdCol option \<Rightarrow> TableRef \<Rightarrow> error + 'r" where
  "TableRef_Resolve maxKeyVal newRaw eo snap ordCol stmt =
     (case eo of
        None \<Rightarrow> Inl ErrIllegalArguments
      | Some e \<Rightarrow>
          (case snap of
             None \<Rightarrow> Inl ErrIllegalArguments
           | Some sn \<Rightarrow>
               if (case ordCol of None \<Rightarrow> False | Some oc \<Rightarrow> sel oc = None)
               then Inl ErrIllegalArguments
               else
                 (case referencedTable eo stmt of
                    Inl err \<Rightarrow> Inl err
                  | Inr table \<Rightarrow>
                      (case ordCol of
                         None \<Rightarrow> newRaw e sn table (colName (pk table)) GreaterOrEqualTo []
                       | Some oc \<Rightarrow>
                           (case sel oc of
                              None \<Rightarrow> Inl Panic
                            | Some s \<Rightarrow>
                                if sel_db s \<noteq> '''' \<and> sel_db s \<noteq> tbl_dbName table
                                then Inl ErrInvalidColumn
                                else if sel_table s \<noteq> '''' \<and> sel_table s \<noteq> tbl_name table
                                then Inl ErrInvalidColumn
                                else
                                  (case map_of (colsByName table) (sel_col s) of
                                     None \<Rightarrow> Inl ErrColumnDoesNotExist
                                   | Some col \<Rightarrow>
                                       if colName (pk table) \<noteq> sel_col s
                                          \<and> col_id col \<notin> set (indexes table)
                                       then Inl ErrColumnNotIndexed
                                       else
                                         (let initKeyVal0 = [] in
                                          if useInitKeyVal oc
                                             \<and> length (maxKeyVal (colType col)) < length initKeyVal0
                                          then Inl ErrIllegalArguments
                                          else
                                            (let initKeyVal1 =
                                                   (if useInitKeyVal oc then initKeyVal oc
                                                    else initKeyVal0);
                                                 initKeyVal2 =
                                                   (if \<not> useInitKeyVal oc
                                                       \<and> (cmp oc = LowerThan \<or> cmp oc = LowerOrEqualTo)
                                                    then maxKeyVal (colType col)
                                                    else initKeyVal1)
                                             in newRaw e sn table (colName col) (cmp oc)
                                                  initKeyVal2))))))))"

text \<open>
  \<^verbatim>\<open>SelectStmt.Resolve\<close>, with \<open>DataSource_Resolve\<close> for the call \<^verbatim>\<open>stmt.ds.Resolve\<close> through
  the interface. The branches on \<^verbatim>\<open>where\<close>, \<^verbatim>\<open>groupBy\<close> and \<^verbatim>\<open>having\<close> are empty in the
  source.
\<close>

fun SelectStmt_Resolve ::
    "(SQLValueType \<Rightarrow> bytes) \<Rightarrow> (Engine \<Rightarrow> 's \<Rightarrow> Table \<Rightarrow> string \<Rightarrow> Comparison \<Rightarrow> bytes \<Rightarrow> error + 'r)
      \<Rightarrow> (Engine option \<Rightarrow> 's option \<Rightarrow> 'r \<Rightarrow> JoinSpec list \<Rightarrow> error + 'r)
      \<Rightarrow> Engine option \<Rightarrow> 's option \<Rightarrow> OrdCol option \<Rightarrow> SelectStmt \<Rightarrow> error + 'r"
  and DataSource_Resolve ::
    "(SQLValueType \<Rightarrow> bytes) \<Rightarrow> (Engine \<Rightarrow> 's \<Rightarrow> Table \<Rightarrow> string \<Rightarrow> Comparison \<Rightarrow> bytes \<Rightarrow> error + 'r)
      \<Rightarrow> (Engine option \<Rightarrow> 's option \<Rightarrow> 'r \<Rightarrow> JoinSpec list \<Rightarrow> error + 'r)
      \<Rightarrow> Engine option \<Rightarrow> 's option \<Rightarrow> OrdCol option \<Rightarrow> DataSource \<Rightarrow> error + 'r" where
  "SelectStmt_Resolve maxKeyVal newRaw newJoint eo snap ordCol
       (Select dist sels src js wh gb hv lim ob an) =
     (if ordCol \<noteq> None then Inl ErrLimitedOrderBy
      else
        (case SelectStmt_CompileUsing eo (Select dist sels src js wh gb hv lim ob an) of
           Inl err \<Rightarrow> Inl err
         | Inr _ \<Rightarrow>
             let orderByCol = (if 0 < length ob then Some (ob ! 0) else None) in
             (case DataSource_Resolve maxKeyVal newRaw newJoint eo snap orderByCol src of
                Inl err \<Rightarrow> Inl err
              | Inr rowReader \<Rightarrow>
                  (case js of
                     None \<Rightarrow> Inr rowReader
                   | Some jl \<Rightarrow> newJoint eo snap rowReader jl))))"
| "DataSource_Resolve maxKeyVal newRaw newJoint eo snap ordCol (TableRefDS tableRef) =
     TableRef_Resolve maxKeyVal newRaw eo snap ordCol tableRef"
| "DataSource_Resolve maxKeyVal newRaw newJoint eo snap ordCol (SelectStmtDS stmt) =
     SelectStmt_Resolve maxKeyVal newRaw newJoint eo snap ordCol stmt"

subsection \<open>Joint columns\<close>

text \<open>
  A call of \<^verbatim>\<open>jointColumnTo\<close> returns a selector and an error; the model returns \<open>Inr\<close> of
  the selector or \<open>Inl\<close> of the error, and \<open>errOf\<close> reads the error component (\<open>None\<close> for
  \<^verbatim>\<open>nil\<close>).
\<close>

definition errOf :: "error + 'a \<Rightarrow> error option" where
  "errOf r = (case r of Inl x \<Rightarrow> Some x | Inr _ \<Rightarrow> None)"

definition ColSelector_jointColumnTo :: "ColSelector \<Rightarrow> Column \<Rightarrow> error + ColSelector" where
  "ColSelector_jointColumnTo bexp col =
     (if sel_db bexp \<noteq> '''' \<and> sel_db bexp \<noteq> col_dbName col then Inl ErrJointColumnNotFound
      else if sel_table bexp \<noteq> '''' \<and> sel_table bexp \<noteq> col_tableName col
      then Inl ErrJointColumnNotFound
      else if sel_col bexp \<noteq> colName col then Inl ErrJointColumnNotFound
      else Inr bexp)"

text \<open>
  \<^verbatim>\<open>jointColumnTo\<close> on every implementation of \<^verbatim>\<open>BoolExp\<close>. In \<^verbatim>\<open>BinBoolExp.jointColumnTo\<close>
  both \<^verbatim>\<open>jcolLeft, errLeft\<close> and \<^verbatim>\<open>jcolRight, errRight\<close> come from
  \<^verbatim>\<open>bexp.left.jointColumnTo(col)\<close>. The source compares the two selector pointers; both
  calls walk the same expression and return the same pointer, and the model returns the
  same value.
\<close>

fun jointColumnTo :: "BoolExp \<Rightarrow> Column \<Rightarrow> error + ColSelector" where
  "jointColumnTo (ValueExp v) col = Inl ErrJointColumnNotFound"
| "jointColumnTo (ColSelectorExp bexp) col = ColSelector_jointColumnTo bexp col"
| "jointColumnTo (NotBoolExp exp) col = jointColumnTo exp col"
| "jointColumnTo (LikeBoolExp c pattern) col = Inl ErrJointColumnNotFound"
| "jointColumnTo (CmpBoolExp op left right) col =
     (if op \<noteq> EQ then Inl ErrJointColumnNotFound
      else
        (case left of
           ColSelectorExp selLeft \<Rightarrow>
             (case right of
                ColSelectorExp selRight \<Rightarrow>
                  (let rLeft = ColSelector_jointColumnTo selLeft col;
                       rRight = ColSelector_jointColumnTo selRight col;
                       errLeft = errOf rLeft;
                       errRight = errOf rRight
                   in if errLeft \<noteq> None \<and> errLeft \<noteq> Some ErrJointColumnNotFound then rLeft
                      else if errRight \<noteq> None \<and> errRight \<noteq> Some ErrJointColumnNotFound then rRight
                      else if errLeft = None \<and> errRight = None then Inl ErrInvalidJointColumn
                      else if errLeft = None then Inr selRight
                      else Inr selLeft)
              | _ \<Rightarrow> Inl ErrJointColumnNotFound)
         | _ \<Rightarrow> Inl ErrJointColumnNotFound))"
| "jointColumnTo (BinBoolExp op left right) col =
     (let rLeft = jointColumnTo left col;
          rRight = jointColumnTo left col;
          errLeft = errOf rLeft;
          errRight = errOf rRight
      in if errLeft \<noteq> None \<and> errLeft \<noteq> Some ErrJointColumnNotFound then rLeft
         else if errRight \<noteq> None \<and> errRight \<noteq> Some ErrJointColumnNotFound then rRight
         else if errLeft = Some ErrJointColumnNotFound \<and> errRight = Some ErrJointColumnNotFound
         then Inl ErrJointColumnNotFound
         else if errLeft = None \<and> errRight = None \<and> rLeft \<noteq> rRight then Inl ErrInvalidJointColumn
         else if errLeft = None then rLeft
         else rRight)"
| "jointColumnTo (ExistsBoolExp q) col = Inl ErrJointColumnNotFound"

subsection \<open>A concrete catalog\<close>

text \<open>
  The engine after scenarios 1 to 3 of section 8 of the specification: database \<open>db1\<close>
  selected, table \<open>t(id INTEGER, name STRING, PK id)\<close>, an index on \<open>name\<close>.
\<close>

definition emptyEngine :: Engine where
  "emptyEngine = \<lparr>catalog = \<lparr>dbsByName = []\<rparr>, implicitDatabase = '''', prefix = []\<rparr>"

definition idColumn :: Column where
  "idColumn = \<lparr>col_dbName = ''db1'', col_tableName = ''t'', col_id = 1, colName = ''id'',
                colType = ''INTEGER''\<rparr>"

definition nameColumn :: Column where
  "nameColumn = \<lparr>col_dbName = ''db1'', col_tableName = ''t'', col_id = 2, colName = ''name'',
                  colType = ''STRING''\<rparr>"

definition plainTable :: Table where
  "plainTable = \<lparr>tbl_dbID = 1, tbl_dbName = ''db1'', tbl_id = 1, tbl_name = ''t'',
                  colsByID = [(1, idColumn), (2, nameColumn)],
                  colsByName = [(''id'', idColumn), (''name'', nameColumn)],
                  pk = idColumn, indexes = []\<rparr>"

definition indexedTable :: Table where
  "indexedTable = plainTable\<lparr>indexes := [2]\<rparr>"

definition engineWith :: "(string \<times> Table) list \<Rightarrow> Engine" where
  "engineWith tables =
     \<lparr>catalog = \<lparr>dbsByName = [(''db1'', \<lparr>db_id = 1, db_name = ''db1'', tablesByName = tables\<rparr>)]\<rparr>,
      implicitDatabase = ''db1'', prefix = []\<rparr>"

text \<open>
  Modelled from the spec: \<^verbatim>\<open>encodeValue\<close> is defined outside \<^verbatim>\<open>stmt.go\<close>. Section 4.1: an
  INTEGER is 8 bytes big-endian with the sign bit flipped, a BOOLEAN one byte, a STRING
  or BLOB a 4-byte big-endian length followed by the raw bytes; section 4.5: the type
  must fit the value and a Param is refused. It instantiates the parameter \<open>enc\<close> where a
  statement is evaluated on the concrete catalog.
\<close>

fun encodeValue :: encoder where
  "encodeValue (Number n) t k =
     (if t = IntegerType then Inr (encodeID (n + 2 ^ 63)) else Inl ErrEncoding)"
| "encodeValue (String s) t k =
     (if t = StringType then Inr (putUint32 (of_nat (length s)) @ stringBytes s)
      else Inl ErrEncoding)"
| "encodeValue (Bool b) t k =
     (if t = BooleanType then Inr [if b then 1 else 0] else Inl ErrEncoding)"
| "encodeValue (Blob bs) t k =
     (if t = BLOBType then Inr (putUint32 (of_nat (length bs)) @ bs) else Inl ErrEncoding)"
| "encodeValue (SysFn f) t k = Inl ErrEncoding"
| "encodeValue (Param p) t k = Inl ErrEncoding"

text \<open>The statements and expressions that the evaluations below run.\<close>

definition tRef :: TableRef where
  "tRef = \<lparr>tr_db = '''', tr_table = ''t'', tr_as = ''''\<rparr>"

definition createT :: SQLStmt where
  "createT =
     CreateTableStmt ''t''
       [\<lparr>spec_colName = ''id'', spec_colType = ''INTEGER''\<rparr>,
        \<lparr>spec_colName = ''name'', spec_colType = ''STRING''\<rparr>] ''id''"

definition upsertTwoRows :: SQLStmt where
  "upsertTwoRows =
     UpsertIntoStmt tRef [''id'', ''name'']
       [\<lparr>Values = [Number 1, String ''a'']\<rparr>, \<lparr>Values = [Number 2, String ''b'']\<rparr>]"

text \<open>
  Scenario 4 of section 8: the four data entries of \<open>upsertTwoRows\<close> on the indexed table,
  a primary and a secondary entry for each row.
\<close>

definition upsertTwoRowsEntries :: "KV list" where
  "upsertTwoRowsEntries =
     [\<lparr>Key = stringBytes ''ROW.'' @ encodeID 1 @ encodeID 1 @ encodeID 1
              @ [128, 0, 0, 0, 0, 0, 0, 1],
       Value = [0, 0, 0, 2] @ [0, 0, 0, 2] @ stringBytes ''id'' @ [128, 0, 0, 0, 0, 0, 0, 1]
              @ [0, 0, 0, 4] @ stringBytes ''name'' @ [0, 0, 0, 1] @ stringBytes ''a''\<rparr>,
      \<lparr>Key = stringBytes ''ROW.'' @ encodeID 1 @ encodeID 1 @ encodeID 2
              @ [0, 0, 0, 1] @ stringBytes ''a'' @ [128, 0, 0, 0, 0, 0, 0, 1],
       Value = []\<rparr>,
      \<lparr>Key = stringBytes ''ROW.'' @ encodeID 1 @ encodeID 1 @ encodeID 1
              @ [128, 0, 0, 0, 0, 0, 0, 2],
       Value = [0, 0, 0, 2] @ [0, 0, 0, 2] @ stringBytes ''id'' @ [128, 0, 0, 0, 0, 0, 0, 2]
              @ [0, 0, 0, 4] @ stringBytes ''name'' @ [0, 0, 0, 1] @ stringBytes ''b''\<rparr>,
      \<lparr>Key = stringBytes ''ROW.'' @ encodeID 1 @ encodeID 1 @ encodeID 2
              @ [0, 0, 0, 1] @ stringBytes ''b'' @ [128, 0, 0, 0, 0, 0, 0, 2],
       Value = []\<rparr>]"

text \<open>A second database \<open>db2\<close> with a table \<open>u\<close>, next to the selected \<open>db1\<close> with \<open>t\<close>.\<close>

definition uTable :: Table where
  "uTable = \<lparr>tbl_dbID = 2, tbl_dbName = ''db2'', tbl_id = 1, tbl_name = ''u'',
              colsByID = [(1, idColumn\<lparr>col_dbName := ''db2'', col_tableName := ''u''\<rparr>)],
              colsByName = [(''id'', idColumn\<lparr>col_dbName := ''db2'', col_tableName := ''u''\<rparr>)],
              pk = idColumn\<lparr>col_dbName := ''db2'', col_tableName := ''u''\<rparr>, indexes = []\<rparr>"

definition twoDatabases :: Engine where
  "twoDatabases =
     \<lparr>catalog = \<lparr>dbsByName =
        [(''db1'', \<lparr>db_id = 1, db_name = ''db1'', tablesByName = [(''t'', plainTable)]\<rparr>),
         (''db2'', \<lparr>db_id = 2, db_name = ''db2'', tablesByName = [(''u'', uTable)]\<rparr>)]\<rparr>,
      implicitDatabase = ''db1'', prefix = []\<rparr>"

definition idSel :: ColSelector where
  "idSel = \<lparr>sel_db = '''', sel_table = '''', sel_col = ''id'', sel_as = ''''\<rparr>"

definition tIdSel :: ColSelector where
  "tIdSel = \<lparr>sel_db = '''', sel_table = ''t'', sel_col = ''id'', sel_as = ''''\<rparr>"

definition nameSel :: ColSelector where
  "nameSel = \<lparr>sel_db = '''', sel_table = '''', sel_col = ''name'', sel_as = ''''\<rparr>"

text \<open>
  Stand-ins for the two parameters of \<open>TableRef_Resolve\<close>: every type has a largest key
  of eight bytes \<open>0xFF\<close>, and the raw reader is the record of the column, the comparison
  and the start key it was asked for.
\<close>

definition eightBytes :: "SQLValueType \<Rightarrow> bytes" where
  "eightBytes t = replicate 8 255"

definition scanOf :: "Engine \<Rightarrow> unit \<Rightarrow> Table \<Rightarrow> string \<Rightarrow> Comparison \<Rightarrow> bytes \<Rightarrow> error + (string \<times> Comparison \<times> bytes)" where
  "scanOf e sn table col c initKey = Inr (col, c, initKey)"

definition nineBytes :: OrdCol where
  "nineBytes = \<lparr>sel = Some idSel, cmp = GreaterOrEqualTo, initKeyVal = replicate 9 0,
                useInitKeyVal = True\<rparr>"

text \<open>A SELECT with nothing but a data source and an ORDER BY list; an ascending ordering.\<close>

definition orderedSelect :: "DataSource \<Rightarrow> OrdCol list \<Rightarrow> SelectStmt" where
  "orderedSelect src ob = Select False [] src None None None None 0 ob ''''"

definition ascending :: "ColSelector \<Rightarrow> OrdCol" where
  "ascending s = \<lparr>sel = Some s, cmp = GreaterOrEqualTo, initKeyVal = [], useInitKeyVal = False\<rparr>"

section \<open>Properties\<close>

lemmas catalog_defs =
  emptyEngine_def engineWith_def indexedTable_def plainTable_def idColumn_def nameColumn_def
  uTable_def twoDatabases_def tRef_def

lemmas codec_defs =
  mapKey_def encodeID_def putUint32_def stringBytes_def asKey_def
  catalogDatabasePrefix_def catalogTablePrefix_def catalogColumnPrefix_def
  catalogIndexPrefix_def rowPrefix_def IntegerType_def StringType_def BooleanType_def
  BLOBType_def

subsection \<open>The scenarios of the specification\<close>

lemma scenario_setup:
  "snd (CompileUsing enc (Some emptyEngine)
          (TxStmt [CreateDatabaseStmt ''db1'', UseDatabaseStmt ''db1'', createT,
                   CreateIndexStmt ''t'' ''name'']))
   = Some (engineWith [(''t'', indexedTable)])"
  by (simp add: catalog_defs createT_def CreateDatabaseStmt_CompileUsing_def
      UseDatabaseStmt_CompileUsing_def CreateTableStmt_CompileUsing_def
      CreateIndexStmt_CompileUsing_def newDatabase_def newTable_def newColumn_def
      ExistDatabase_def storeDatabase_def Let_def)

lemma scenario_upsert:
  "UpsertIntoStmt_CompileUsing encodeValue (Some (engineWith [(''t'', indexedTable)])) tRef
     [''id'', ''name'']
     [\<lparr>Values = [Number 1, String ''a'']\<rparr>, \<lparr>Values = [Number 2, String ''b'']\<rparr>]
   = Inr ([], upsertTwoRowsEntries)"
  by (simp add: catalog_defs codec_defs upsertTwoRowsEntries_def UpsertIntoStmt_CompileUsing_def
      referencedTable_def Validate_def Bytes_def lookupInt_def primaryKey_def indexKey_def
      Let_def)

subsection \<open>Transactions\<close>

lemma TxStmt_loop_des:
  "TxStmt_loop enc eo stmts ces des = (Inr (ces', des'), eo') \<Longrightarrow> des' = des"
proof (induction stmts arbitrary: eo ces)
  case Nil
  then show ?case by simp
next
  case (Cons stmt rest)
  then show ?case
    by (auto simp: Let_def split: prod.splits sum.splits)
qed

lemma TxStmt_loop_ces:
  "TxStmt_loop enc eo stmts ces des = (Inr (ces', des'), eo') \<Longrightarrow>
   \<exists>css. ces' = ces @ concat css
     \<and> list_all2 (\<lambda>stmt cs. \<exists>e1 e2 ds0. CompileUsing enc e1 stmt = (Inr (cs, ds0), e2)) stmts css"
proof (induction stmts arbitrary: eo ces)
  case Nil
  then show ?case by simp
next
  case (Cons stmt rest)
  from Cons.prems obtain cs ds0 eo1 where
    child: "CompileUsing enc eo stmt = (Inr (cs, ds0), eo1)"
    and loop: "TxStmt_loop enc eo1 rest (ces @ cs) des = (Inr (ces', des'), eo')"
    by (auto simp: Let_def split: prod.splits sum.splits)
  from Cons.IH [OF loop] obtain css where
    "ces' = (ces @ cs) @ concat css"
    and "list_all2 (\<lambda>stmt cs. \<exists>e1 e2 ds0. CompileUsing enc e1 stmt = (Inr (cs, ds0), e2)) rest css"
    by blast
  with child show ?case
    by (intro exI [of _ "cs # css"]) auto
qed

lemma TxStmt_CompileUsing_no_data_entries:
  "CompileUsing enc eo (TxStmt stmts) = (Inr (ces, des), eo') \<Longrightarrow> des = []"
  by (simp add: TxStmt_loop_des)

text \<open>
  C1. A \<open>TxStmt\<close> should return the children's data entries, concatenated in statement
  order, as its data-entry list. On the indexed table the UPSERT of two rows compiles to
  four data entries; the transaction that wraps this one statement compiles without
  error and returns no data entry at all.
\<close>

theorem TxStmt_CompileUsing_loses_data_entries:
  "fst (CompileUsing encodeValue (Some (engineWith [(''t'', indexedTable)])) upsertTwoRows)
     = Inr ([], upsertTwoRowsEntries)
   \<and> length upsertTwoRowsEntries = 4
   \<and> fst (CompileUsing encodeValue (Some (engineWith [(''t'', indexedTable)]))
            (TxStmt [upsertTwoRows]))
     = Inr ([], [])"
  by (simp add: upsertTwoRows_def scenario_upsert upsertTwoRowsEntries_def)

subsection \<open>Table references\<close>

lemma referencedTable_any_db:
  "referencedTable eo (stmt\<lparr>tr_db := d\<rparr>) = referencedTable eo stmt"
  by (simp add: referencedTable_def split: option.splits)

text \<open>
  C3. \<open>referencedTable\<close> should resolve the table in the database named by \<^verbatim>\<open>stmt.db\<close> when
  that name is not empty, and fail with DatabaseDoesNotExist when the catalog has no
  such database. With \<open>db1\<close> selected: the reference \<open>db2.u\<close> names a table that exists in
  \<open>db2\<close>, and the function looks for \<open>u\<close> in \<open>db1\<close> and fails with TableDoesNotExist; the
  reference \<open>nodb.t\<close> names a database that does not exist, and the function returns the
  table \<open>t\<close> of \<open>db1\<close>.
\<close>

theorem referencedTable_ignores_stmt_db:
  "map_of (dbsByName (catalog twoDatabases)) ''db2''
     = Some \<lparr>db_id = 2, db_name = ''db2'', tablesByName = [(''u'', uTable)]\<rparr>
   \<and> referencedTable (Some twoDatabases) \<lparr>tr_db = ''db2'', tr_table = ''u'', tr_as = ''''\<rparr>
     = Inl ErrTableDoesNotExist
   \<and> \<not> ExistDatabase (catalog twoDatabases) ''nodb''
   \<and> referencedTable (Some twoDatabases) \<lparr>tr_db = ''nodb'', tr_table = ''t'', tr_as = ''''\<rparr>
     = Inr plainTable"
  by (simp add: twoDatabases_def referencedTable_def ExistDatabase_def)

subsection \<open>CREATE TABLE\<close>

text \<open>
  C4. CREATE TABLE should emit, for every declared column, a CATALOG.COLUMN entry whose
  stored value is the name of the column. For \<open>t(id INTEGER, name STRING, PK id)\<close> in the
  selected database the two column entries carry the empty value; the table entry
  carries the table name and the id of the PK column in its key.
\<close>

theorem CreateTableStmt_column_entries_have_no_value:
  "fst (CompileUsing enc (Some (engineWith [])) createT)
   = Inr ([\<lparr>Key = mapKey (engineWith []) catalogColumnPrefix
                    [encodeID 1, encodeID 1, encodeID 1, stringBytes ''INTEGER''],
             Value = []\<rparr>,
           \<lparr>Key = mapKey (engineWith []) catalogColumnPrefix
                    [encodeID 1, encodeID 1, encodeID 2, stringBytes ''STRING''],
             Value = []\<rparr>,
           \<lparr>Key = mapKey (engineWith []) catalogTablePrefix
                    [encodeID 1, encodeID 1, encodeID 1],
             Value = stringBytes ''t''\<rparr>],
          [])"
  by (simp add: createT_def engineWith_def CreateTableStmt_CompileUsing_def newTable_def
      newColumn_def Let_def)

subsection \<open>Joint columns\<close>

lemma BinBoolExp_jointColumnTo_left:
  "jointColumnTo (BinBoolExp op left right) col = jointColumnTo left col"
  by (cases "jointColumnTo left col") (auto simp: errOf_def Let_def)

text \<open>
  C5. For a \<open>BinBoolExp\<close> the joint column should be the selector on which the left and the
  right sub-expression agree, and InvalidJointColumn when they resolve to different
  selectors. Against the column \<open>id\<close> of \<open>t\<close>: with a number on the left and the selector
  \<open>t.id\<close> on the right, the right side alone resolves to \<open>t.id\<close> and the conjunction answers
  JointColumnNotFound; with the selector \<open>id\<close> on the left and \<open>t.id\<close> on the right, the
  sides resolve to the two different selectors and the conjunction answers the left one.
\<close>

theorem BinBoolExp_jointColumnTo_ignores_right:
  "jointColumnTo (ColSelectorExp tIdSel) idColumn = Inr tIdSel
   \<and> jointColumnTo (BinBoolExp AND (ValueExp (Number 1)) (ColSelectorExp tIdSel)) idColumn
     = Inl ErrJointColumnNotFound
   \<and> jointColumnTo (ColSelectorExp idSel) idColumn = Inr idSel
   \<and> idSel \<noteq> tIdSel
   \<and> jointColumnTo (BinBoolExp AND (ColSelectorExp idSel) (ColSelectorExp tIdSel)) idColumn
     = Inr idSel"
  by (simp add: ColSelector_jointColumnTo_def idSel_def tIdSel_def idColumn_def errOf_def)

subsection \<open>Scans\<close>

lemma TableRef_Resolve_start_key:
  assumes "referencedTable (Some e) stmt = Inr table"
    and "sel oc = Some s"
    and "sel_db s = '''' \<or> sel_db s = tbl_dbName table"
    and "sel_table s = '''' \<or> sel_table s = tbl_name table"
    and "map_of (colsByName table) (sel_col s) = Some col"
    and "colName (pk table) = sel_col s \<or> col_id col \<in> set (indexes table)"
  shows "TableRef_Resolve maxKeyVal newRaw (Some e) (Some sn) (Some oc) stmt
         = newRaw e sn table (colName col) (cmp oc)
             (if useInitKeyVal oc then initKeyVal oc
              else if cmp oc = LowerThan \<or> cmp oc = LowerOrEqualTo then maxKeyVal (colType col)
              else [])"
  using assms by (auto simp: TableRef_Resolve_def Let_def)

text \<open>
  C8. \<open>TableRef.Resolve\<close> should reject with IllegalArguments an \<^verbatim>\<open>initKeyVal\<close> that is longer
  than \<^verbatim>\<open>maxKeyVal\<close> of the column's type. With eight bytes as the largest key, an
  ordering column on the PK that supplies a start key of nine bytes is accepted, and the
  raw reader is asked to start at these nine bytes.
\<close>

theorem TableRef_Resolve_accepts_long_initKeyVal:
  "length (eightBytes (colType idColumn)) < length (initKeyVal nineBytes)
   \<and> TableRef_Resolve eightBytes scanOf (Some (engineWith [(''t'', plainTable)])) (Some ())
       (Some nineBytes) tRef
     = Inr (''id'', GreaterOrEqualTo, replicate 9 0)"
  by (simp add: catalog_defs TableRef_Resolve_def referencedTable_def nineBytes_def idSel_def
      eightBytes_def scanOf_def)

text \<open>
  C10. \<open>SelectStmt.Resolve\<close> called with an ordering column fails with LimitedOrderBy,
  whatever the engine, the snapshot and the statement are; so does the resolution of a
  data source that is a nested SELECT.
\<close>

theorem SelectStmt_Resolve_rejects_ordCol:
  "SelectStmt_Resolve maxKeyVal newRaw newJoint eo snap (Some ordCol) stmt
     = Inl ErrLimitedOrderBy
   \<and> DataSource_Resolve maxKeyVal newRaw newJoint eo snap (Some ordCol) (SelectStmtDS stmt)
     = Inl ErrLimitedOrderBy"
  by (cases stmt) simp

subsection \<open>UPSERT\<close>

lemma primaryKey_ends: "\<exists>p. primaryKey e table pkEncVal = p @ pkEncVal"
  by (rule exI [of _ "prefix e @ stringBytes rowPrefix @ encodeID (tbl_dbID table)
        @ encodeID (tbl_id table) @ encodeID (col_id (pk table))"])
    (simp add: primaryKey_def mapKey_def)

lemma indexKey_ends: "\<exists>p. indexKey e table colID encVal pkEncVal = p @ pkEncVal"
  by (rule exI [of _ "prefix e @ stringBytes rowPrefix @ encodeID (tbl_dbID table)
        @ encodeID (tbl_id table) @ encodeID colID @ encVal"])
    (simp add: indexKey_def mapKey_def)

lemma index_loop_shape:
  "index_loop enc e table cs row pkEncVal ids des = Inr des' \<Longrightarrow>
   \<exists>ies. des' = des @ ies
     \<and> list_all2 (\<lambda>colID ie. Value ie = []
          \<and> (\<exists>encVal. Key ie = indexKey e table colID encVal pkEncVal)
          \<and> (\<exists>p. Key ie = p @ pkEncVal)) ids ies"
proof (induction ids arbitrary: des)
  case Nil
  then show ?case by simp
next
  case (Cons colID rest)
  from Cons.prems obtain encVal where
    step: "index_loop enc e table cs row pkEncVal rest
             (des @ [\<lparr>Key = indexKey e table colID encVal pkEncVal, Value = []\<rparr>]) = Inr des'"
    by (auto simp: Let_def split: if_splits option.splits sum.splits)
  from Cons.IH [OF step] obtain ies where
    "des' = (des @ [\<lparr>Key = indexKey e table colID encVal pkEncVal, Value = []\<rparr>]) @ ies"
    and "list_all2 (\<lambda>colID ie. Value ie = []
          \<and> (\<exists>encVal. Key ie = indexKey e table colID encVal pkEncVal)
          \<and> (\<exists>p. Key ie = p @ pkEncVal)) rest ies"
    by blast
  then show ?case
    using indexKey_ends [of e table colID encVal pkEncVal]
    by (intro exI [of _ "\<lparr>Key = indexKey e table colID encVal pkEncVal, Value = []\<rparr> # ies"])
      auto
qed

lemma rows_loop_shape:
  "rows_loop enc e table cols cs rows des = Inr des' \<Longrightarrow>
   \<exists>blocks. des' = des @ concat blocks
     \<and> list_all2 (\<lambda>row block. \<exists>pkEncVal bs ies.
          enc (Values row ! lookupInt cs (col_id (pk table))) (colType (pk table)) asKey
            = Inr pkEncVal
          \<and> Bytes enc row table cols = Inr bs
          \<and> block = \<lparr>Key = primaryKey e table pkEncVal, Value = bs\<rparr> # ies
          \<and> (\<exists>p. primaryKey e table pkEncVal = p @ pkEncVal)
          \<and> list_all2 (\<lambda>colID ie. Value ie = []
               \<and> (\<exists>encVal. Key ie = indexKey e table colID encVal pkEncVal)
               \<and> (\<exists>p. Key ie = p @ pkEncVal)) (indexes table) ies) rows blocks"
proof (induction rows arbitrary: des)
  case Nil
  then show ?case by simp
next
  case (Cons row rest)
  from Cons.prems obtain pkEncVal bs des1 where
    pk: "enc (Values row ! lookupInt cs (col_id (pk table))) (colType (pk table)) asKey
           = Inr pkEncVal"
    and bs: "Bytes enc row table cols = Inr bs"
    and ix: "index_loop enc e table cs row pkEncVal (indexes table)
               (des @ [\<lparr>Key = primaryKey e table pkEncVal, Value = bs\<rparr>]) = Inr des1"
    and rest: "rows_loop enc e table cols cs rest des1 = Inr des'"
    by (auto simp: Let_def split: if_splits sum.splits)
  from index_loop_shape [OF ix] obtain ies where
    des1: "des1 = (des @ [\<lparr>Key = primaryKey e table pkEncVal, Value = bs\<rparr>]) @ ies"
    and ies: "list_all2 (\<lambda>colID ie. Value ie = []
          \<and> (\<exists>encVal. Key ie = indexKey e table colID encVal pkEncVal)
          \<and> (\<exists>p. Key ie = p @ pkEncVal)) (indexes table) ies"
    by blast
  from Cons.IH [OF rest] obtain blocks where
    des': "des' = des1 @ concat blocks"
    and blocks: "list_all2 (\<lambda>row block. \<exists>pkEncVal bs ies.
          enc (Values row ! lookupInt cs (col_id (pk table))) (colType (pk table)) asKey
            = Inr pkEncVal
          \<and> Bytes enc row table cols = Inr bs
          \<and> block = \<lparr>Key = primaryKey e table pkEncVal, Value = bs\<rparr> # ies
          \<and> (\<exists>p. primaryKey e table pkEncVal = p @ pkEncVal)
          \<and> list_all2 (\<lambda>colID ie. Value ie = []
               \<and> (\<exists>encVal. Key ie = indexKey e table colID encVal pkEncVal)
               \<and> (\<exists>p. Key ie = p @ pkEncVal)) (indexes table) ies) rest blocks"
    by blast
  have "\<exists>pkEncVal' bs' ies'.
          enc (Values row ! lookupInt cs (col_id (pk table))) (colType (pk table)) asKey
            = Inr pkEncVal'
          \<and> Bytes enc row table cols = Inr bs'
          \<and> \<lparr>Key = primaryKey e table pkEncVal, Value = bs\<rparr> # ies
              = \<lparr>Key = primaryKey e table pkEncVal', Value = bs'\<rparr> # ies'
          \<and> (\<exists>p. primaryKey e table pkEncVal' = p @ pkEncVal')
          \<and> list_all2 (\<lambda>colID ie. Value ie = []
               \<and> (\<exists>encVal. Key ie = indexKey e table colID encVal pkEncVal')
               \<and> (\<exists>p. Key ie = p @ pkEncVal')) (indexes table) ies'"
    using pk bs ies primaryKey_ends [of e table pkEncVal] by blast
  with des1 des' blocks show ?case
    by (intro exI [of _ "(\<lparr>Key = primaryKey e table pkEncVal, Value = bs\<rparr> # ies) # blocks"])
      simp
qed

lemma blocks_length:
  "list_all2 (\<lambda>row block. \<exists>pkEncVal bs ies. P row pkEncVal \<and> Q row bs
       \<and> block = \<lparr>Key = primaryKey e table pkEncVal, Value = bs\<rparr> # ies
       \<and> R pkEncVal
       \<and> list_all2 (S pkEncVal) ids ies) rows blocks \<Longrightarrow>
   length (concat blocks) = length rows * (1 + length ids)"
  by (induction rows blocks rule: list_all2_induct) (auto dest: list_all2_lengthD)

text \<open>
  C2. An UPSERT that compiles emits no catalog entry and, for \<open>n\<close> rows on a table with \<open>i\<close>
  secondary-indexed columns, \<open>n * (1 + i)\<close> data entries: the data entries are the
  concatenation of one block per row, in row order. The block of a row starts with the
  primary entry, whose key ends with the encoded PK value of the row and whose value is
  the payload \<open>Bytes\<close> of the row, and goes on with one entry per indexed column, in the
  order of the loop over \<^verbatim>\<open>table.indexes\<close>, whose key is built for that column, ends with
  the same encoded PK value, and whose value is empty.
\<close>

theorem UpsertIntoStmt_CompileUsing_entries:
  assumes "UpsertIntoStmt_CompileUsing enc eo tableRef cols rows = Inr (ces, des)"
  shows "\<exists>e table cs blocks.
      eo = Some e \<and> referencedTable eo tableRef = Inr table \<and> Validate cols table = Inr cs
      \<and> ces = []
      \<and> length des = length rows * (1 + length (indexes table))
      \<and> des = concat blocks
      \<and> list_all2 (\<lambda>row block. \<exists>pkEncVal bs ies.
            enc (Values row ! lookupInt cs (col_id (pk table))) (colType (pk table)) asKey
              = Inr pkEncVal
            \<and> Bytes enc row table cols = Inr bs
            \<and> block = \<lparr>Key = primaryKey e table pkEncVal, Value = bs\<rparr> # ies
            \<and> (\<exists>p. primaryKey e table pkEncVal = p @ pkEncVal)
            \<and> list_all2 (\<lambda>colID ie. Value ie = []
                 \<and> (\<exists>encVal. Key ie = indexKey e table colID encVal pkEncVal)
                 \<and> (\<exists>p. Key ie = p @ pkEncVal)) (indexes table) ies) rows blocks"
proof -
  from assms obtain e table cs where
    e: "eo = Some e" and table: "referencedTable eo tableRef = Inr table"
    and cs: "Validate cols table = Inr cs"
    and loop: "rows_loop enc e table cols cs rows [] = Inr des" and ces: "ces = []"
    by (auto simp: UpsertIntoStmt_CompileUsing_def split: sum.splits option.splits)
  from rows_loop_shape [OF loop] obtain blocks where
    des: "des = concat blocks"
    and blocks: "list_all2 (\<lambda>row block. \<exists>pkEncVal bs ies.
            enc (Values row ! lookupInt cs (col_id (pk table))) (colType (pk table)) asKey
              = Inr pkEncVal
            \<and> Bytes enc row table cols = Inr bs
            \<and> block = \<lparr>Key = primaryKey e table pkEncVal, Value = bs\<rparr> # ies
            \<and> (\<exists>p. primaryKey e table pkEncVal = p @ pkEncVal)
            \<and> list_all2 (\<lambda>colID ie. Value ie = []
                 \<and> (\<exists>encVal. Key ie = indexKey e table colID encVal pkEncVal)
                 \<and> (\<exists>p. Key ie = p @ pkEncVal)) (indexes table) ies) rows blocks"
    by auto
  from blocks_length [OF blocks] des
  have "length des = length rows * (1 + length (indexes table))" by simp
  with e table cs ces des blocks show ?thesis by blast
qed

theorem UpsertIntoStmt_CompileUsing_entries_witness:
  "UpsertIntoStmt_CompileUsing encodeValue (Some (engineWith [(''t'', indexedTable)])) tRef
     [''id'', ''name'']
     [\<lparr>Values = [Number 1, String ''a'']\<rparr>, \<lparr>Values = [Number 2, String ''b'']\<rparr>]
   = Inr ([], upsertTwoRowsEntries)
   \<and> indexes indexedTable = [2]
   \<and> length upsertTwoRowsEntries = 2 * (1 + length (indexes indexedTable))
   \<and> (\<exists>blocks. upsertTwoRowsEntries = concat blocks \<and> length blocks = 2)"
proof -
  from UpsertIntoStmt_CompileUsing_entries [OF scenario_upsert] obtain table blocks where
    "referencedTable (Some (engineWith [(''t'', indexedTable)])) tRef = Inr table"
    and "length upsertTwoRowsEntries
          = length [\<lparr>Values = [Number 1, String ''a'']\<rparr>, \<lparr>Values = [Number 2, String ''b'']\<rparr>]
            * (1 + length (indexes table))"
    and "upsertTwoRowsEntries = concat blocks"
    and "length [\<lparr>Values = [Number 1, String ''a'']\<rparr>, \<lparr>Values = [Number 2, String ''b'']\<rparr>]
          = length blocks"
    by (blast dest: list_all2_lengthD)
  moreover have "referencedTable (Some (engineWith [(''t'', indexedTable)])) tRef
      = Inr indexedTable"
    by (simp add: referencedTable_def engineWith_def tRef_def)
  ultimately show ?thesis
    using scenario_upsert by (auto simp: indexedTable_def)
qed

subsection \<open>ORDER BY\<close>

text \<open>
  C6. \<open>SelectStmt.CompileUsing\<close> fails with LimitedOrderBy when ORDER BY names more than
  one column, when it is not empty and the data source is a nested SELECT rather than a
  table reference, and when its single column, on a table reference that resolves to
  \<open>table\<close>, is no column of the table or a column that is neither the PK (the same column
  id) nor in \<^verbatim>\<open>table.indexes\<close>. A single column that is the PK or is indexed compiles
  without error and without entries.
\<close>

theorem SelectStmt_CompileUsing_order_by:
  "(1 < length (orderBy stmt) \<longrightarrow> SelectStmt_CompileUsing eo stmt = Inl ErrLimitedOrderBy)
   \<and> (orderBy stmt \<noteq> [] \<and> ds stmt = SelectStmtDS q
        \<longrightarrow> SelectStmt_CompileUsing eo stmt = Inl ErrLimitedOrderBy)
   \<and> (orderBy stmt = [oc] \<and> sel oc = Some s \<and> ds stmt = TableRefDS tableRef
        \<and> referencedTable eo tableRef = Inr table
        \<and> (map_of (colsByName table) (sel_col s) = None
            \<or> (\<exists>col. map_of (colsByName table) (sel_col s) = Some col
                  \<and> col_id col \<noteq> col_id (pk table) \<and> col_id col \<notin> set (indexes table)))
        \<longrightarrow> SelectStmt_CompileUsing eo stmt = Inl ErrLimitedOrderBy)
   \<and> (orderBy stmt = [oc] \<and> sel oc = Some s \<and> ds stmt = TableRefDS tableRef
        \<and> referencedTable eo tableRef = Inr table
        \<and> map_of (colsByName table) (sel_col s) = Some col
        \<and> (col_id col = col_id (pk table) \<or> col_id col \<in> set (indexes table))
        \<longrightarrow> SelectStmt_CompileUsing eo stmt = Inr ([], []))"
  by (auto simp: SelectStmt_CompileUsing_def)

theorem SelectStmt_CompileUsing_order_by_witness:
  "SelectStmt_CompileUsing (Some (engineWith [(''t'', indexedTable)]))
     (orderedSelect (TableRefDS tRef) [ascending idSel, ascending nameSel]) = Inl ErrLimitedOrderBy
   \<and> SelectStmt_CompileUsing (Some (engineWith [(''t'', indexedTable)]))
     (orderedSelect (SelectStmtDS (orderedSelect (TableRefDS tRef) [])) [ascending idSel])
       = Inl ErrLimitedOrderBy
   \<and> SelectStmt_CompileUsing (Some (engineWith [(''t'', plainTable)]))
     (orderedSelect (TableRefDS tRef) [ascending nameSel]) = Inl ErrLimitedOrderBy
   \<and> SelectStmt_CompileUsing (Some (engineWith [(''t'', indexedTable)]))
     (orderedSelect (TableRefDS tRef) [ascending nameSel]) = Inr ([], [])
   \<and> SelectStmt_CompileUsing (Some (engineWith [(''t'', plainTable)]))
     (orderedSelect (TableRefDS tRef) [ascending idSel]) = Inr ([], [])"
proof -
  have r1: "referencedTable (Some (engineWith [(''t'', indexedTable)])) tRef = Inr indexedTable"
    and r2: "referencedTable (Some (engineWith [(''t'', plainTable)])) tRef = Inr plainTable"
    by (simp_all add: referencedTable_def engineWith_def tRef_def)
  have "SelectStmt_CompileUsing (Some (engineWith [(''t'', indexedTable)]))
     (orderedSelect (TableRefDS tRef) [ascending idSel, ascending nameSel]) = Inl ErrLimitedOrderBy"
    using SelectStmt_CompileUsing_order_by
      [where stmt = "orderedSelect (TableRefDS tRef) [ascending idSel, ascending nameSel]"]
    by (simp add: orderedSelect_def)
  moreover have "SelectStmt_CompileUsing (Some (engineWith [(''t'', indexedTable)]))
     (orderedSelect (SelectStmtDS (orderedSelect (TableRefDS tRef) [])) [ascending idSel])
       = Inl ErrLimitedOrderBy"
    using SelectStmt_CompileUsing_order_by
      [where stmt = "orderedSelect (SelectStmtDS (orderedSelect (TableRefDS tRef) []))
                       [ascending idSel]"
        and q = "orderedSelect (TableRefDS tRef) []"]
    by (simp add: orderedSelect_def)
  moreover have "SelectStmt_CompileUsing (Some (engineWith [(''t'', plainTable)]))
     (orderedSelect (TableRefDS tRef) [ascending nameSel]) = Inl ErrLimitedOrderBy"
    using SelectStmt_CompileUsing_order_by
      [where stmt = "orderedSelect (TableRefDS tRef) [ascending nameSel]"
        and oc = "ascending nameSel" and s = nameSel and tableRef = tRef
        and eo = "Some (engineWith [(''t'', plainTable)])" and table = plainTable] r2
    by (simp add: orderedSelect_def ascending_def nameSel_def plainTable_def nameColumn_def
        idColumn_def)
  moreover have "SelectStmt_CompileUsing (Some (engineWith [(''t'', indexedTable)]))
     (orderedSelect (TableRefDS tRef) [ascending nameSel]) = Inr ([], [])"
    using SelectStmt_CompileUsing_order_by
      [where stmt = "orderedSelect (TableRefDS tRef) [ascending nameSel]"
        and oc = "ascending nameSel" and s = nameSel and tableRef = tRef
        and eo = "Some (engineWith [(''t'', indexedTable)])" and table = indexedTable
        and col = nameColumn] r1
    by (simp add: orderedSelect_def ascending_def nameSel_def indexedTable_def plainTable_def
        nameColumn_def idColumn_def)
  moreover have "SelectStmt_CompileUsing (Some (engineWith [(''t'', plainTable)]))
     (orderedSelect (TableRefDS tRef) [ascending idSel]) = Inr ([], [])"
    using SelectStmt_CompileUsing_order_by
      [where stmt = "orderedSelect (TableRefDS tRef) [ascending idSel]"
        and oc = "ascending idSel" and s = idSel and tableRef = tRef
        and eo = "Some (engineWith [(''t'', plainTable)])" and table = plainTable
        and col = idColumn] r2
    by (simp add: orderedSelect_def ascending_def idSel_def plainTable_def nameColumn_def
        idColumn_def)
  ultimately show ?thesis by blast
qed

subsection \<open>CREATE INDEX\<close>

lemma map_of_update_same: "map_of (AList.update k v al) k = Some v"
  by (simp add: AList.update_conv')

text \<open>
  C7. CREATE INDEX on column \<open>c\<close> of table \<open>t\<close> of the selected database fails with
  IndexAlreadyExists when \<open>c\<close> is the name of the PK column, with ColumnDoesNotExist when
  \<open>c\<close> names no column of \<open>t\<close>, and with IndexAlreadyExists when the id of the column is
  already in \<^verbatim>\<open>table.indexes\<close>; none of the failures changes the engine. In the remaining
  case it succeeds: it returns exactly one catalog entry, under the CATALOG.INDEX prefix
  with the ids of the database, the table and the column, no data entry, and an engine
  in which table \<open>t\<close> has the column id added to its indexes. It succeeds in no other case.
\<close>

theorem CreateIndexStmt_CompileUsing_cases:
  assumes "implicitDatabase e \<noteq> ''''"
    and "map_of (dbsByName (catalog e)) (implicitDatabase e) = Some db"
    and "map_of (tablesByName db) t = Some table"
  shows "(colName (pk table) = c
           \<longrightarrow> CreateIndexStmt_CompileUsing (Some e) t c = (Inl ErrIndexAlreadyExists, Some e))
    \<and> (colName (pk table) \<noteq> c \<and> map_of (colsByName table) c = None
           \<longrightarrow> CreateIndexStmt_CompileUsing (Some e) t c = (Inl ErrColumnDoesNotExist, Some e))
    \<and> (\<forall>col. map_of (colsByName table) c = Some col \<and> col_id col \<in> set (indexes table)
           \<longrightarrow> CreateIndexStmt_CompileUsing (Some e) t c = (Inl ErrIndexAlreadyExists, Some e))
    \<and> (\<forall>col. colName (pk table) \<noteq> c \<and> map_of (colsByName table) c = Some col
             \<and> col_id col \<notin> set (indexes table)
           \<longrightarrow> (\<exists>e' db'.
                 CreateIndexStmt_CompileUsing (Some e) t c
                   = (Inr ([\<lparr>Key = mapKey e catalogIndexPrefix
                                   [encodeID (tbl_dbID table), encodeID (tbl_id table),
                                    encodeID (col_id col)],
                             Value = stringBytes (tbl_name table)\<rparr>], []), Some e')
                 \<and> implicitDatabase e' = implicitDatabase e
                 \<and> map_of (dbsByName (catalog e')) (implicitDatabase e) = Some db'
                 \<and> map_of (tablesByName db') t
                     = Some (table\<lparr>indexes := indexes table @ [col_id col]\<rparr>)))
    \<and> (\<forall>ces des eo'. CreateIndexStmt_CompileUsing (Some e) t c = (Inr (ces, des), eo')
           \<longrightarrow> length ces = 1 \<and> des = []
               \<and> (\<exists>col. map_of (colsByName table) c = Some col \<and> colName (pk table) \<noteq> c
                      \<and> col_id col \<notin> set (indexes table)))"
  using assms
  by (auto simp: CreateIndexStmt_CompileUsing_def storeDatabase_def map_of_update_same Let_def
      split: option.splits)

theorem CreateIndexStmt_CompileUsing_cases_witness:
  "CreateIndexStmt_CompileUsing (Some (engineWith [(''t'', plainTable)])) ''t'' ''id''
     = (Inl ErrIndexAlreadyExists, Some (engineWith [(''t'', plainTable)]))
   \<and> CreateIndexStmt_CompileUsing (Some (engineWith [(''t'', plainTable)])) ''t'' ''nope''
     = (Inl ErrColumnDoesNotExist, Some (engineWith [(''t'', plainTable)]))
   \<and> CreateIndexStmt_CompileUsing (Some (engineWith [(''t'', indexedTable)])) ''t'' ''name''
     = (Inl ErrIndexAlreadyExists, Some (engineWith [(''t'', indexedTable)]))
   \<and> (\<exists>e' db'.
        CreateIndexStmt_CompileUsing (Some (engineWith [(''t'', plainTable)])) ''t'' ''name''
          = (Inr ([\<lparr>Key = mapKey (engineWith [(''t'', plainTable)]) catalogIndexPrefix
                          [encodeID 1, encodeID 1, encodeID 2],
                    Value = stringBytes ''t''\<rparr>], []), Some e')
        \<and> map_of (dbsByName (catalog e')) ''db1'' = Some db'
        \<and> map_of (tablesByName db') ''t'' = Some indexedTable)"
proof -
  have sel: "implicitDatabase (engineWith ts) \<noteq> ''''"
    and db: "map_of (dbsByName (catalog (engineWith ts))) (implicitDatabase (engineWith ts))
              = Some \<lparr>db_id = 1, db_name = ''db1'', tablesByName = ts\<rparr>" for ts
    by (simp_all add: engineWith_def)
  have plain: "map_of (tablesByName \<lparr>db_id = 1, db_name = ''db1'',
                  tablesByName = [(''t'', plainTable)]\<rparr>) ''t'' = Some plainTable"
    and indexed: "map_of (tablesByName \<lparr>db_id = 1, db_name = ''db1'',
                  tablesByName = [(''t'', indexedTable)]\<rparr>) ''t'' = Some indexedTable"
    by simp_all
  have "CreateIndexStmt_CompileUsing (Some (engineWith [(''t'', plainTable)])) ''t'' ''id''
     = (Inl ErrIndexAlreadyExists, Some (engineWith [(''t'', plainTable)]))"
    using CreateIndexStmt_CompileUsing_cases [OF sel db plain, of "''id''"]
    by (simp add: plainTable_def idColumn_def)
  moreover have
    "CreateIndexStmt_CompileUsing (Some (engineWith [(''t'', plainTable)])) ''t'' ''nope''
     = (Inl ErrColumnDoesNotExist, Some (engineWith [(''t'', plainTable)]))"
    using CreateIndexStmt_CompileUsing_cases [OF sel db plain, of "''nope''"]
    by (simp add: plainTable_def idColumn_def)
  moreover have
    "CreateIndexStmt_CompileUsing (Some (engineWith [(''t'', indexedTable)])) ''t'' ''name''
     = (Inl ErrIndexAlreadyExists, Some (engineWith [(''t'', indexedTable)]))"
    using CreateIndexStmt_CompileUsing_cases [OF sel db indexed, of "''name''"]
    by (simp add: indexedTable_def plainTable_def idColumn_def nameColumn_def)
  moreover have "\<exists>e' db'.
        CreateIndexStmt_CompileUsing (Some (engineWith [(''t'', plainTable)])) ''t'' ''name''
          = (Inr ([\<lparr>Key = mapKey (engineWith [(''t'', plainTable)]) catalogIndexPrefix
                          [encodeID 1, encodeID 1, encodeID 2],
                    Value = stringBytes ''t''\<rparr>], []), Some e')
        \<and> map_of (dbsByName (catalog e')) ''db1'' = Some db'
        \<and> map_of (tablesByName db') ''t'' = Some indexedTable"
  proof -
    have free: "colName (pk plainTable) \<noteq> ''name''
        \<and> map_of (colsByName plainTable) ''name'' = Some nameColumn
        \<and> col_id nameColumn \<notin> set (indexes plainTable)"
      by (simp add: plainTable_def idColumn_def nameColumn_def)
    have eqs: "tbl_dbID plainTable = 1" "tbl_id plainTable = 1" "col_id nameColumn = 2"
      "tbl_name plainTable = ''t''"
      "plainTable\<lparr>indexes := indexes plainTable @ [2]\<rparr> = indexedTable"
      "implicitDatabase (engineWith [(''t'', plainTable)]) = ''db1''"
      by (simp_all add: indexedTable_def plainTable_def nameColumn_def engineWith_def)
    from CreateIndexStmt_CompileUsing_cases [OF sel db plain, of "''name''"] free
    obtain e' db' where
      "CreateIndexStmt_CompileUsing (Some (engineWith [(''t'', plainTable)])) ''t'' ''name''
          = (Inr ([\<lparr>Key = mapKey (engineWith [(''t'', plainTable)]) catalogIndexPrefix
                          [encodeID (tbl_dbID plainTable), encodeID (tbl_id plainTable),
                           encodeID (col_id nameColumn)],
                    Value = stringBytes (tbl_name plainTable)\<rparr>], []), Some e')"
      and "map_of (dbsByName (catalog e')) (implicitDatabase (engineWith [(''t'', plainTable)]))
            = Some db'"
      and "map_of (tablesByName db') ''t''
            = Some (plainTable\<lparr>indexes := indexes plainTable @ [col_id nameColumn]\<rparr>)"
      by blast
    then show ?thesis unfolding eqs by blast
  qed
  ultimately show ?thesis by blast
qed

subsection \<open>Validation of an UPSERT\<close>

lemma Validate_loop_Inr:
  "Validate_loop t (enumerate n cols) pkI selByColID = Inr (pkI', sel') \<Longrightarrow>
   pkI' = (pkI \<or> colName (pk t) \<in> set cols)
   \<and> (\<forall>c\<in>set cols. \<exists>col. map_of (colsByName t) c = Some col \<and> selByColID (col_id col) = None)
   \<and> distinct (map (\<lambda>c. map_option col_id (map_of (colsByName t) c)) cols)"
proof (induction cols arbitrary: n pkI selByColID)
  case Nil
  then show ?case by simp
next
  case (Cons c cs)
  from Cons.prems obtain col where
    col: "map_of (colsByName t) c = Some col" and fresh: "selByColID (col_id col) = None"
    and rest: "Validate_loop t (enumerate (Suc n) cs) (if colName (pk t) = c then True else pkI)
                 (selByColID(col_id col \<mapsto> n)) = Inr (pkI', sel')"
    by (auto simp: Let_def split: option.splits)
  from Cons.IH [OF rest] have
    pk: "pkI' = ((if colName (pk t) = c then True else pkI) \<or> colName (pk t) \<in> set cs)"
    and ex: "\<forall>c'\<in>set cs. \<exists>col'. map_of (colsByName t) c' = Some col'
               \<and> (selByColID(col_id col \<mapsto> n)) (col_id col') = None"
    and dist: "distinct (map (\<lambda>c. map_option col_id (map_of (colsByName t) c)) cs)"
    by blast+
  from ex have ex': "\<forall>c'\<in>set cs. \<exists>col'. map_of (colsByName t) c' = Some col'
               \<and> selByColID (col_id col') = None \<and> col_id col' \<noteq> col_id col"
    by (fastforce split: if_splits)
  have "map_option col_id (map_of (colsByName t) c)
          \<notin> (\<lambda>c. map_option col_id (map_of (colsByName t) c)) ` set cs"
    using ex' col by force
  with pk ex' dist col fresh show ?case by auto
qed

lemma Validate_loop_ok:
  "\<forall>c\<in>set cols. \<exists>col. map_of (colsByName t) c = Some col \<and> selByColID (col_id col) = None \<Longrightarrow>
   distinct (map (\<lambda>c. map_option col_id (map_of (colsByName t) c)) cols) \<Longrightarrow>
   \<exists>sel'. Validate_loop t (enumerate n cols) pkI selByColID
            = Inr (pkI \<or> colName (pk t) \<in> set cols, sel')"
proof (induction cols arbitrary: n pkI selByColID)
  case Nil
  then show ?case by simp
next
  case (Cons c cs)
  from Cons.prems(1) obtain col where
    col: "map_of (colsByName t) c = Some col" and fresh: "selByColID (col_id col) = None"
    by auto
  have "\<forall>c'\<in>set cs. \<exists>col'. map_of (colsByName t) c' = Some col'
          \<and> (selByColID(col_id col \<mapsto> n)) (col_id col') = None"
  proof
    fix c' assume c': "c' \<in> set cs"
    with Cons.prems(1) obtain col' where
      col': "map_of (colsByName t) c' = Some col'" "selByColID (col_id col') = None"
      by auto
    from Cons.prems(2) c' have
      "map_option col_id (map_of (colsByName t) c) \<noteq> map_option col_id (map_of (colsByName t) c')"
      by auto
    with col col' have "col_id col' \<noteq> col_id col" by auto
    with col' show "\<exists>col'. map_of (colsByName t) c' = Some col'
          \<and> (selByColID(col_id col \<mapsto> n)) (col_id col') = None"
      by simp
  qed
  moreover from Cons.prems(2)
  have "distinct (map (\<lambda>c. map_option col_id (map_of (colsByName t) c)) cs)" by simp
  ultimately obtain sel' where
    "Validate_loop t (enumerate (Suc n) cs) (if colName (pk t) = c then True else pkI)
       (selByColID(col_id col \<mapsto> n))
     = Inr ((if colName (pk t) = c then True else pkI) \<or> colName (pk t) \<in> set cs, sel')"
    using Cons.IH by blast
  with col fresh show ?case by (auto simp: Let_def)
qed

lemma Validate_loop_Inl:
  "Validate_loop t (enumerate n cols) pkI selByColID = Inl e \<Longrightarrow>
   e = ErrDuplicatedColumn \<or> e = ErrInvalidColumn \<and> (\<exists>c\<in>set cols. map_of (colsByName t) c = None)"
proof (induction cols arbitrary: n pkI selByColID)
  case Nil
  then show ?case by simp
next
  case (Cons c cs)
  show ?case
  proof (cases "map_of (colsByName t) c")
    case None
    with Cons.prems show ?thesis by auto
  next
    case (Some col)
    show ?thesis
    proof (cases "selByColID (col_id col)")
      case (Some i)
      with \<open>map_of (colsByName t) c = Some col\<close> Cons.prems show ?thesis by auto
    next
      case None
      with \<open>map_of (colsByName t) c = Some col\<close> Cons.prems
      have "Validate_loop t (enumerate (Suc n) cs) (if colName (pk t) = c then True else pkI)
              (selByColID(col_id col \<mapsto> n)) = Inl e"
        by (simp add: Let_def)
      from Cons.IH [OF this] show ?thesis by auto
    qed
  qed
qed

lemma rows_loop_append:
  "rows_loop enc e t cols cs (pre @ rest) des =
     (case rows_loop enc e t cols cs pre des of
        Inl err \<Rightarrow> Inl err
      | Inr des' \<Rightarrow> rows_loop enc e t cols cs rest des')"
  by (induction pre arbitrary: des) (auto simp: Let_def split: sum.splits)

lemma rows_loop_mismatch:
  "row \<in> set rows \<Longrightarrow> length (Values row) \<noteq> length cols \<Longrightarrow>
   \<exists>err. rows_loop enc e t cols cs rows des = Inl err"
  by (induction rows arbitrary: des) (auto simp: Let_def split: sum.splits)

lemma Validate_fails_without_pk:
  "colName (pk table) \<notin> set cols \<Longrightarrow> \<exists>er. Validate cols table = Inl er"
  by (auto simp: Validate_def split: sum.splits dest: Validate_loop_Inr)

lemma Validate_Inr:
  "Validate cols table = Inr cs \<Longrightarrow>
   colName (pk table) \<in> set cols
   \<and> (\<forall>c\<in>set cols. map_of (colsByName table) c \<noteq> None)
   \<and> distinct (map (\<lambda>c. map_option col_id (map_of (colsByName table) c)) cols)"
  by (auto simp: Validate_def split: sum.splits if_splits dest!: Validate_loop_Inr)

lemma Validate_Inl:
  "Validate cols table = Inl er \<Longrightarrow>
   er = ErrPKCanNotBeNull \<or> er = ErrDuplicatedColumn
   \<or> er = ErrInvalidColumn \<and> (\<exists>c\<in>set cols. map_of (colsByName table) c = None)"
  by (auto simp: Validate_def split: sum.splits if_splits dest!: Validate_loop_Inl)

lemma Validate_PKCanNotBeNull:
  assumes "colName (pk table) \<notin> set cols"
    and "\<forall>c\<in>set cols. map_of (colsByName table) c \<noteq> None"
    and "distinct (map (\<lambda>c. map_option col_id (map_of (colsByName table) c)) cols)"
  shows "Validate cols table = Inl ErrPKCanNotBeNull"
proof -
  from assms(2) have
    "\<forall>c\<in>set cols. \<exists>col. map_of (colsByName table) c = Some col \<and> Map.empty (col_id col) = None"
    by auto
  from Validate_loop_ok [OF this assms(3), of 0 False] assms(1) show ?thesis
    by (auto simp: Validate_def)
qed

lemma Validate_DuplicatedColumn:
  assumes "\<not> distinct cols" and "\<forall>c\<in>set cols. map_of (colsByName table) c \<noteq> None"
  shows "Validate cols table = Inl ErrDuplicatedColumn"
proof (cases "Validate_loop table (enumerate 0 cols) False Map.empty")
  case (Inl er)
  from Validate_loop_Inl [OF this] assms(2) have "er = ErrDuplicatedColumn" by auto
  with Inl show ?thesis by (simp add: Validate_def)
next
  case (Inr r)
  then obtain pkI sel' where
    "Validate_loop table (enumerate 0 cols) False Map.empty = Inr (pkI, sel')"
    by (cases r) auto
  from Validate_loop_Inr [OF this]
  have "distinct (map (\<lambda>c. map_option col_id (map_of (colsByName table) c)) cols)" by blast
  then have "distinct cols" by (simp add: distinct_map)
  with assms(1) show ?thesis by simp
qed

lemma Upsert_fails_on_mismatch:
  assumes "row \<in> set rows" and "length (Values row) \<noteq> length cols"
  shows "\<exists>er. UpsertIntoStmt_CompileUsing enc eo tableRef cols rows = Inl er"
proof (cases "UpsertIntoStmt_CompileUsing enc eo tableRef cols rows")
  case (Inl er)
  then show ?thesis by blast
next
  case (Inr r)
  then obtain e table cs des where
    "rows_loop enc e table cols cs rows [] = Inr des"
    by (auto simp: UpsertIntoStmt_CompileUsing_def split: sum.splits option.splits)
  with rows_loop_mismatch [OF assms, of enc e table cs "[]"] show ?thesis by simp
qed

lemma Upsert_first_mismatch:
  assumes "UpsertIntoStmt_CompileUsing enc eo tableRef cols pre = Inr (ces, des)"
    and "length (Values row) \<noteq> length cols"
  shows "UpsertIntoStmt_CompileUsing enc eo tableRef cols (pre @ row # post)
           = Inl ErrInvalidNumberOfValues"
  using assms
  by (auto simp: UpsertIntoStmt_CompileUsing_def rows_loop_append
      split: sum.splits option.splits)

text \<open>
  C9, as amended. \<open>Validate\<close> checks the listed columns in list order and returns at the
  first failure, and \<open>CompileUsing\<close> checks the rows in order after the table has resolved
  and the columns have validated. So validation fails whenever the PK column is not
  listed, and the error is PKCanNotBeNull when moreover every listed name is a column of
  the table and no column id is listed twice; validation fails whenever a name is listed
  twice, and the error is DuplicatedColumn when moreover every listed name is a column
  of the table; validation fails whenever a listed name matches no column of the table.
  Compilation fails whenever some row has a number of values that differs from the
  number of listed columns, and the error is InvalidNumberOfValues when the statement
  compiles on the rows before that row.
\<close>

theorem UpsertIntoStmt_validation_errors:
  "(colName (pk table) \<notin> set cols \<longrightarrow> (\<exists>er. Validate cols table = Inl er))
   \<and> (colName (pk table) \<notin> set cols
        \<and> (\<forall>c\<in>set cols. map_of (colsByName table) c \<noteq> None)
        \<and> distinct (map (\<lambda>c. map_option col_id (map_of (colsByName table) c)) cols)
        \<longrightarrow> Validate cols table = Inl ErrPKCanNotBeNull)
   \<and> (\<not> distinct cols \<longrightarrow> (\<exists>er. Validate cols table = Inl er))
   \<and> (\<not> distinct cols \<and> (\<forall>c\<in>set cols. map_of (colsByName table) c \<noteq> None)
        \<longrightarrow> Validate cols table = Inl ErrDuplicatedColumn)
   \<and> (c \<in> set cols \<and> map_of (colsByName table) c = None
        \<longrightarrow> (\<exists>er. Validate cols table = Inl er))
   \<and> (row \<in> set rows \<and> length (Values row) \<noteq> length cols
        \<longrightarrow> (\<exists>er. UpsertIntoStmt_CompileUsing enc eo tableRef cols rows = Inl er))
   \<and> (UpsertIntoStmt_CompileUsing enc eo tableRef cols pre = Inr (ces, des)
        \<and> length (Values row) \<noteq> length cols
        \<longrightarrow> UpsertIntoStmt_CompileUsing enc eo tableRef cols (pre @ row # post)
              = Inl ErrInvalidNumberOfValues)"
proof -
  have "\<not> distinct cols \<Longrightarrow> \<exists>er. Validate cols table = Inl er"
    by (cases "Validate cols table") (auto dest: Validate_Inr simp: distinct_map)
  moreover have "c \<in> set cols \<Longrightarrow> map_of (colsByName table) c = None
      \<Longrightarrow> \<exists>er. Validate cols table = Inl er"
    by (cases "Validate cols table") (auto dest: Validate_Inr)
  ultimately show ?thesis
    using Validate_fails_without_pk [of table cols]
      Validate_PKCanNotBeNull [of table cols]
      Validate_DuplicatedColumn [of cols table]
      Upsert_fails_on_mismatch [of row rows cols enc eo tableRef]
      Upsert_first_mismatch [of enc eo tableRef cols pre ces des row post]
    by blast
qed

theorem UpsertIntoStmt_validation_errors_witness:
  "Validate [''name''] plainTable = Inl ErrPKCanNotBeNull
   \<and> Validate [''id'', ''id''] plainTable = Inl ErrDuplicatedColumn
   \<and> (\<exists>er. Validate [''id'', ''nope''] plainTable = Inl er)
   \<and> UpsertIntoStmt_CompileUsing encodeValue (Some (engineWith [(''t'', indexedTable)])) tRef
        [''id'', ''name'']
        [\<lparr>Values = [Number 1, String ''a'']\<rparr>, \<lparr>Values = [Number 2, String ''b'']\<rparr>,
         \<lparr>Values = [Number 3]\<rparr>]
      = Inl ErrInvalidNumberOfValues"
proof -
  have "Validate [''name''] plainTable = Inl ErrPKCanNotBeNull"
    using UpsertIntoStmt_validation_errors [where table = plainTable and cols = "[''name'']"]
    by (simp add: plainTable_def idColumn_def nameColumn_def)
  moreover have "Validate [''id'', ''id''] plainTable = Inl ErrDuplicatedColumn"
    using UpsertIntoStmt_validation_errors [where table = plainTable and cols = "[''id'', ''id'']"]
    by (simp add: plainTable_def idColumn_def nameColumn_def)
  moreover have "\<exists>er. Validate [''id'', ''nope''] plainTable = Inl er"
    using UpsertIntoStmt_validation_errors
      [where table = plainTable and cols = "[''id'', ''nope'']" and c = "''nope''"]
    by (simp add: plainTable_def idColumn_def nameColumn_def)
  moreover have
    "UpsertIntoStmt_CompileUsing encodeValue (Some (engineWith [(''t'', indexedTable)])) tRef
        [''id'', ''name'']
        ([\<lparr>Values = [Number 1, String ''a'']\<rparr>, \<lparr>Values = [Number 2, String ''b'']\<rparr>]
          @ \<lparr>Values = [Number 3]\<rparr> # [])
      = Inl ErrInvalidNumberOfValues"
    using UpsertIntoStmt_validation_errors
      [where enc = encodeValue and eo = "Some (engineWith [(''t'', indexedTable)])"
        and tableRef = tRef and cols = "[''id'', ''name'']"
        and pre = "[\<lparr>Values = [Number 1, String ''a'']\<rparr>, \<lparr>Values = [Number 2, String ''b'']\<rparr>]"
        and ces = "[]" and des = upsertTwoRowsEntries
        and row = "\<lparr>Values = [Number 3]\<rparr>" and post = "[]"]
      scenario_upsert
    by simp
  ultimately show ?thesis by simp
qed

text \<open>
  The claim as first stated names the error of each failure without regard to the order
  of the checks. On table \<open>t\<close> with PK \<open>id\<close>: the list \<open>nope\<close> lacks the PK and fails with
  InvalidColumn, not PKCanNotBeNull; the list \<open>nope, id, id\<close> repeats a column and fails
  with InvalidColumn, not DuplicatedColumn; the UPSERT into \<open>t(name)\<close> of a row of two
  values has a row of the wrong length and fails with PKCanNotBeNull, not
  InvalidNumberOfValues.
\<close>

theorem UpsertIntoStmt_validation_errors_counterexample:
  "colName (pk plainTable) \<notin> set [''nope'']
   \<and> Validate [''nope''] plainTable = Inl ErrInvalidColumn
   \<and> \<not> distinct [''nope'', ''id'', ''id'']
   \<and> Validate [''nope'', ''id'', ''id''] plainTable = Inl ErrInvalidColumn
   \<and> length (Values \<lparr>Values = [String ''a'', String ''b'']\<rparr>) \<noteq> length [''name'']
   \<and> UpsertIntoStmt_CompileUsing encodeValue (Some (engineWith [(''t'', plainTable)])) tRef
        [''name''] [\<lparr>Values = [String ''a'', String ''b'']\<rparr>]
      = Inl ErrPKCanNotBeNull"
  by (simp add: catalog_defs Validate_def UpsertIntoStmt_CompileUsing_def referencedTable_def)

end
